theory Spec2Isabelle
  imports Main "HOL-Library.List_Lexorder"
begin

section \<open>Python strings\<close>

text \<open>
  A Python \<^verbatim>\<open>str\<close> is a sequence of Unicode code points. A code point is a natural
  number and a string is a list of them, so that \<^verbatim>\<open>len\<close>, slicing and \<^verbatim>\<open>in\<close> count what
  Python counts. \<open>lit\<close> writes the ASCII literals of the source.
\<close>

type_synonym codepoint = nat
type_synonym pystr = "codepoint list"

definition lit :: "string \<Rightarrow> pystr" where
  "lit s = map of_char s"

text \<open>
  The whitespace of \<^verbatim>\<open>str.strip()\<close> (no argument) and of \<^verbatim>\<open>\s\<close> in a \<^verbatim>\<open>str\<close> pattern of
  \<^verbatim>\<open>re\<close>: CPython's \<^verbatim>\<open>Py_UNICODE_ISSPACE\<close> table, that is U+0009..U+000D,
  U+001C..U+0020, U+0085, U+00A0, U+1680, U+2000..U+200A, U+2028, U+2029, U+202F,
  U+205F and U+3000.
\<close>

definition py_isspace :: "codepoint \<Rightarrow> bool" where
  "py_isspace c \<longleftrightarrow>
     (9 \<le> c \<and> c \<le> 13) \<or> (28 \<le> c \<and> c \<le> 32) \<or> c = 133 \<or> c = 160 \<or> c = 5760 \<or>
     (8192 \<le> c \<and> c \<le> 8202) \<or> c = 8232 \<or> c = 8233 \<or> c = 8239 \<or> c = 8287 \<or>
     c = 12288"

text \<open>\<^verbatim>\<open>s.strip()\<close>: leading and trailing whitespace removed.\<close>

definition py_strip :: "pystr \<Rightarrow> pystr" where
  "py_strip s = rev (dropWhile py_isspace (rev (dropWhile py_isspace s)))"

text \<open>
  \<^verbatim>\<open>s.split(sep, 1)\<close> for a separator of one character: the text before the first
  occurrence and the text after it, or the whole string alone when \<open>sep\<close> does not
  occur.
\<close>

definition py_split1 :: "codepoint \<Rightarrow> pystr \<Rightarrow> pystr list" where
  "py_split1 sep s =
     (if sep \<in> set s
      then [takeWhile (\<lambda>c. c \<noteq> sep) s, tl (dropWhile (\<lambda>c. c \<noteq> sep) s)]
      else [s])"

text \<open>\<^verbatim>\<open>sep.join(xs)\<close>.\<close>

fun py_join :: "pystr \<Rightarrow> pystr list \<Rightarrow> pystr" where
  "py_join sep [] = []"
| "py_join sep [x] = x"
| "py_join sep (x # y # ys) = x @ sep @ py_join sep (y # ys)"

text \<open>
  Text mode. \<^verbatim>\<open>Path.read_text\<close> and \<^verbatim>\<open>Path.write_text\<close> open the file with the default
  \<^verbatim>\<open>newline=None\<close>. On reading, every CR LF pair and every other CR of the file reaches
  the program as one LF (universal newlines). On writing, every LF of the text is stored
  as \<^verbatim>\<open>os.linesep\<close>: LF itself on POSIX, CR LF on Windows.
\<close>

fun universal_newlines :: "pystr \<Rightarrow> pystr" where
  "universal_newlines [] = []"
| "universal_newlines [c] = [if c = 13 then 10 else c]"
| "universal_newlines (c # d # ds) =
     (if c = 13 \<and> d = 10 then 10 # universal_newlines ds
      else (if c = 13 then 10 else c) # universal_newlines (d # ds))"

definition write_newlines :: "pystr \<Rightarrow> pystr \<Rightarrow> pystr" where
  "write_newlines linesep s = concat (map (\<lambda>c. if c = 10 then linesep else [c]) s)"

text \<open>
  A \<^verbatim>\<open>str\<close> can hold a surrogate code point (U+D800..U+DFFF) on its own, for instance
  after \<^verbatim>\<open>json.loads\<close> of the escape \<^verbatim>\<open>"\ud800"\<close>. Such a string has no UTF-8 encoding:
  \<^verbatim>\<open>s.encode("utf-8")\<close> raises \<^verbatim>\<open>UnicodeEncodeError\<close>.
\<close>

definition utf8_encodable :: "pystr \<Rightarrow> bool" where
  "utf8_encodable s \<longleftrightarrow> list_all (\<lambda>c. c < 55296 \<or> 57343 < c) s"

section \<open>Errors and results\<close>

text \<open>
  The exceptions a run can raise. \<open>IndexError\<close> is what \<^verbatim>\<open>xs[0]\<close> raises on an empty
  list; \<open>FileNotFoundError\<close> what opening a missing file raises; \<open>LibraryError\<close> stands
  for whatever \<^verbatim>\<open>tomllib\<close>, \<^verbatim>\<open>subprocess.run(..., check=True)\<close> or \<^verbatim>\<open>json.loads\<close> raise
  (and for the \<^verbatim>\<open>TypeError\<close>/\<^verbatim>\<open>AttributeError\<close> of a declaration that is not a string).
\<close>

datatype py_error = IndexError | FileNotFoundError | LibraryError

text \<open>\<^verbatim>\<open>xs[0]\<close>.\<close>

definition item0 :: "'a list \<Rightarrow> py_error + 'a" where
  "item0 xs = (case xs of [] \<Rightarrow> Inl IndexError | x # _ \<Rightarrow> Inr x)"

section \<open>Stripping a declaration to its name\<close>

text \<open>
  Lines 40--48 of \<^verbatim>\<open>_get_direct_dependency_names\<close> and lines 78--85 of
  \<^verbatim>\<open>_update_pyproject_dependencies_block\<close> are the same statements:
  \<^verbatim>\<open>
      token = dep
      if "[" in token:
          token = token.split("[", 1)[0]
      for sep in ("<", ">", "=", "!", "~", " "):
          if sep in token:
              token = token.split(sep, 1)[0]
      name = token.strip()
  \<close>
\<close>

definition cut_at :: "codepoint \<Rightarrow> pystr \<Rightarrow> py_error + pystr" where
  "cut_at sep token = (if sep \<in> set token then item0 (py_split1 sep token) else Inr token)"

definition version_seps :: "codepoint list" where
  "version_seps = lit ''<>=!~ ''"

definition lbracket :: codepoint where
  "lbracket = of_char (CHR ''['')"

fun cut_seps :: "codepoint list \<Rightarrow> pystr \<Rightarrow> py_error + pystr" where
  "cut_seps [] token = Inr token"
| "cut_seps (sep # seps) token =
     (case cut_at sep token of Inl e \<Rightarrow> Inl e | Inr token' \<Rightarrow> cut_seps seps token')"

definition dep_name :: "pystr \<Rightarrow> py_error + pystr" where
  "dep_name dep =
     (case cut_at lbracket dep of
        Inl e \<Rightarrow> Inl e
      | Inr token \<Rightarrow>
          (case cut_seps version_seps token of
             Inl e \<Rightarrow> Inl e
           | Inr token' \<Rightarrow> Inr (py_strip token')))"

text \<open>
  The loop of \<^verbatim>\<open>_get_direct_dependency_names\<close> over the declarations \<open>deps\<close>, with the
  set \<open>names\<close> it fills:
  \<^verbatim>\<open>
      names: set[str] = set()
      for dep in deps:
          ...
          name = token.strip()
          if name:
              names.add(name)
      return names
  \<close>
\<close>

fun names_loop :: "pystr list \<Rightarrow> pystr set \<Rightarrow> py_error + pystr set" where
  "names_loop [] names = Inr names"
| "names_loop (dep # deps) names =
     (case dep_name dep of
        Inl e \<Rightarrow> Inl e
      | Inr name \<Rightarrow> names_loop deps (if name \<noteq> [] then insert name names else names))"

definition dependency_names :: "pystr list \<Rightarrow> py_error + pystr set" where
  "dependency_names deps = names_loop deps {}"

section \<open>Locating the dependencies block\<close>

text \<open>
  \<^verbatim>\<open>re.compile(r"dependencies\s*=\s*\[(.*?)\]", re.DOTALL)\<close>. Anchored at the start
  of \<open>s\<close>, the pattern reads the word, a run of whitespace, \<^verbatim>\<open>=\<close>, a run of whitespace,
  \<^verbatim>\<open>[\<close>, and then, \<^verbatim>\<open>.*?\<close> being lazy and \<^verbatim>\<open>DOTALL\<close> letting it cross lines, everything
  up to the first \<^verbatim>\<open>]\<close>. Neither \<^verbatim>\<open>=\<close> nor \<^verbatim>\<open>[\<close> is whitespace, so each greedy run
  \<^verbatim>\<open>\s*\<close> can only end where the whitespace ends. \<open>match_here\<close> returns the length of
  the match.
\<close>

definition keyword :: pystr where
  "keyword = lit ''dependencies''"

definition equals_sign :: codepoint where
  "equals_sign = of_char (CHR ''='')"

definition rbracket :: codepoint where
  "rbracket = of_char (CHR '']'')"

definition starts_with :: "pystr \<Rightarrow> pystr \<Rightarrow> bool" where
  "starts_with pre s \<longleftrightarrow> take (length pre) s = pre"

definition match_here :: "pystr \<Rightarrow> nat option" where
  "match_here s =
     (if starts_with keyword s then
        (case dropWhile py_isspace (drop (length keyword) s) of
           [] \<Rightarrow> None
         | c # r \<Rightarrow>
             if c \<noteq> equals_sign then None
             else
               (case dropWhile py_isspace r of
                  [] \<Rightarrow> None
                | c' # r' \<Rightarrow>
                    if c' \<noteq> lbracket then None
                    else if rbracket \<in> set r'
                    then Some (length s - length (tl (dropWhile (\<lambda>x. x \<noteq> rbracket) r')))
                    else None))
      else None)"

text \<open>
  \<^verbatim>\<open>pattern.search(text)\<close> followed by \<^verbatim>\<open>match.span()\<close>: the match at the leftmost
  position that has one, as \<open>(start, end)\<close>.
\<close>

fun pattern_search :: "pystr \<Rightarrow> (nat \<times> nat) option" where
  "pattern_search [] = None"
| "pattern_search (c # cs) =
     (case match_here (c # cs) of
        Some n \<Rightarrow> Some (0, n)
      | None \<Rightarrow>
          (case pattern_search cs of
             None \<Rightarrow> None
           | Some (s, e) \<Rightarrow> Some (Suc s, Suc e)))"

section \<open>The world of a run\<close>

text \<open>
  A path is the list of its components below the root. The state a run can change is
  the text of the files and what has been printed, one entry per \<^verbatim>\<open>print\<close> call, oldest
  first. The text of a file is the text on the program's side of text mode: what
  \<^verbatim>\<open>read_text\<close> returns and what \<^verbatim>\<open>write_text\<close> is given, with LF line ends. How the
  characters stored on disk relate to it is the subject of \<open>rewrite_on_disk\<close> below.
\<close>

type_synonym path = "pystr list"

record state =
  files :: "path \<rightharpoonup> pystr"
  stdout :: "pystr list"

text \<open>One entry of the JSON array \<^verbatim>\<open>uv pip list --outdated --format json\<close> prints, with
  its keys \<^verbatim>\<open>"name"\<close>, \<^verbatim>\<open>"version"\<close> and \<^verbatim>\<open>"latest_version"\<close>.\<close>

record pkg =
  pkg_name :: pystr
  pkg_version :: pystr
  pkg_latest_version :: pystr

text \<open>
  What the run takes from outside this repository: the working directory
  (\<^verbatim>\<open>Path.cwd().resolve()\<close>); \<^verbatim>\<open>tomllib\<close>, as the function from a manifest text to the
  list \<^verbatim>\<open>data.get("project", {}).get("dependencies", [])\<close> of its declarations, or to
  the error raised when the text does not load or an entry is not a string
  (\<^verbatim>\<open>tomllib.load\<close> is given the file opened in binary mode and takes CR LF for a line end
  itself, \<^verbatim>\<open>tomllib.loads\<close> is given the text read in text mode); and the
  outcome of \<^verbatim>\<open>subprocess.run(["uv", "pip", "list", "--outdated", "--format", "json"],
  check=True)\<close> with \<^verbatim>\<open>json.loads\<close> on its output.
\<close>

record world =
  cwd :: path
  toml_dependencies :: "pystr \<Rightarrow> py_error + pystr list"
  uv_outdated :: "py_error + pkg list"

text \<open>
  How a call ends: it returns a value, raises \<^verbatim>\<open>SystemExit(n)\<close>, or raises another
  exception, which nothing in this program catches. The interpreter's exit status is
  \<open>0\<close> after a normal return of \<^verbatim>\<open>main\<close>, \<open>n\<close> after \<^verbatim>\<open>SystemExit(n)\<close> and \<open>1\<close> after an
  uncaught exception.
\<close>

datatype 'a result = Return 'a | SystemExit int | Raised py_error

fun exit_code :: "'a result \<Rightarrow> int" where
  "exit_code (Return _) = 0"
| "exit_code (SystemExit n) = n"
| "exit_code (Raised _) = 1"

definition print :: "pystr \<Rightarrow> state \<Rightarrow> state" where
  "print line st = st\<lparr>stdout := stdout st @ [line]\<rparr>"

definition manifest_name :: pystr where
  "manifest_name = lit ''pyproject.toml''"

text \<open>\<^verbatim>\<open>path.parents\<close>: the ancestors, nearest first, down to the root.\<close>

definition parents :: "path \<Rightarrow> path list" where
  "parents p = map (\<lambda>n. take n p) (rev [0..<length p])"

text \<open>\<^verbatim>\<open>str(path)\<close> of an absolute POSIX path.\<close>

definition path_str :: "path \<Rightarrow> pystr" where
  "path_str p = lit ''/'' @ py_join (lit ''/'') p"

section \<open>\<^verbatim>\<open>_find_project_root\<close>\<close>

definition find_project_root :: "world \<Rightarrow> state \<Rightarrow> path result \<times> state" where
  "find_project_root w st =
     (case find (\<lambda>candidate_dir. files st (candidate_dir @ [manifest_name]) \<noteq> None)
             (cwd w # parents (cwd w)) of
        Some candidate_dir \<Rightarrow> (Return candidate_dir, st)
      | None \<Rightarrow>
          (SystemExit 1,
           print (lit ''No pyproject.toml found upwards from current working directory.'') st))"

section \<open>\<^verbatim>\<open>_get_direct_dependency_names\<close>\<close>

definition get_direct_dependency_names ::
    "world \<Rightarrow> state \<Rightarrow> path \<Rightarrow> pystr set result \<times> state" where
  "get_direct_dependency_names w st pyproject_path =
     (case files st pyproject_path of
        None \<Rightarrow> (Raised FileNotFoundError, st)
      | Some text \<Rightarrow>
          (case toml_dependencies w text of
             Inl e \<Rightarrow> (Raised e, st)
           | Inr deps \<Rightarrow>
               (case dependency_names deps of
                  Inl e \<Rightarrow> (Raised e, st)
                | Inr names \<Rightarrow> (Return names, st))))"

section \<open>\<^verbatim>\<open>_update_pyproject_dependencies_block\<close>\<close>

text \<open>
  The loop that fills \<^verbatim>\<open>updated_deps\<close> (lines 76--93); \<open>new_versions\<close> is the dict, a
  map from names to version strings.
\<close>

fun update_loop :: "(pystr \<rightharpoonup> pystr) \<Rightarrow> pystr list \<Rightarrow> pystr list \<Rightarrow> py_error + pystr list" where
  "update_loop new_versions [] updated_deps = Inr updated_deps"
| "update_loop new_versions (dep # deps) updated_deps =
     (case dep_name dep of
        Inl e \<Rightarrow> Inl e
      | Inr name \<Rightarrow>
          (case new_versions name of
             Some v \<Rightarrow> update_loop new_versions deps (updated_deps @ [name @ lit ''=='' @ v])
           | None \<Rightarrow> update_loop new_versions deps (updated_deps @ [dep])))"

text \<open>Lines 96--100: the block as it is written.\<close>

definition new_block :: "pystr list \<Rightarrow> pystr" where
  "new_block updated_deps =
     py_join (lit [CHR 0x0A])
       ([lit ''dependencies = [''] @
        map (\<lambda>d. lit ''    '' @ lit [CHR 0x22] @ d @ lit [CHR 0x22] @ lit '','') updated_deps @
        [lit '']''])"

definition update_pyproject_dependencies_block ::
    "world \<Rightarrow> state \<Rightarrow> path \<Rightarrow> (pystr \<rightharpoonup> pystr) \<Rightarrow> unit result \<times> state" where
  "update_pyproject_dependencies_block w st pyproject_path new_versions =
     (case files st pyproject_path of
        None \<Rightarrow> (Raised FileNotFoundError, st)
      | Some text \<Rightarrow>
          (case pattern_search text of
             None \<Rightarrow>
               (SystemExit 1,
                print (lit ''Kein [project].dependencies Block in pyproject.toml gefunden.'') st)
           | Some (start, end) \<Rightarrow>
               (case toml_dependencies w text of
                  Inl e \<Rightarrow> (Raised e, st)
                | Inr deps \<Rightarrow>
                    (case update_loop new_versions deps [] of
                       Inl e \<Rightarrow> (Raised e, st)
                     | Inr updated_deps \<Rightarrow>
                         (Return (),
                          st\<lparr>files := (files st)(pyproject_path \<mapsto>
                             take start text @ new_block updated_deps @ drop end text)\<rparr>)))))"

text \<open>
  The same call seen from the disk. Line 63 reads the manifest with \<^verbatim>\<open>read_text\<close> and
  line 105 writes it with \<^verbatim>\<open>write_text\<close>, both in text mode: of the characters \<open>raw\<close>
  stored in the file the function sees \<open>universal_newlines raw\<close>, it searches, loads and
  splices that text, and what it stores is the new text with every LF written as the
  platform's line separator. The result is the new content of the file, or \<open>None\<close> when
  the call ends without writing.
\<close>

definition rewrite_on_disk ::
    "world \<Rightarrow> pystr \<Rightarrow> path \<Rightarrow> (pystr \<rightharpoonup> pystr) \<Rightarrow> pystr \<Rightarrow> pystr option" where
  "rewrite_on_disk w linesep pyproject_path new_versions raw =
     (case update_pyproject_dependencies_block w
             \<lparr>files = [pyproject_path \<mapsto> universal_newlines raw], stdout = []\<rparr>
             pyproject_path new_versions of
        (Return _, st') \<Rightarrow> map_option (write_newlines linesep) (files st' pyproject_path)
      | (SystemExit _, _) \<Rightarrow> None
      | (Raised _, _) \<Rightarrow> None)"

section \<open>\<^verbatim>\<open>main\<close>\<close>

text \<open>
  Lines 139--145: every package to update is printed and entered in the dict; a later
  entry of the same name overwrites an earlier one.
\<close>

fun versions_loop ::
    "pkg list \<Rightarrow> (pystr \<rightharpoonup> pystr) \<Rightarrow> state \<Rightarrow> (pystr \<rightharpoonup> pystr) \<times> state" where
  "versions_loop [] new_versions st = (new_versions, st)"
| "versions_loop (p # ps) new_versions st =
     versions_loop ps (new_versions(pkg_name p \<mapsto> pkg_latest_version p))
       (print (pkg_name p @ lit '': '' @ pkg_version p @ lit '' -> '' @ pkg_latest_version p) st)"

definition closing_lines :: "pystr list" where
  "closing_lines =
     [lit ''pyproject.toml aktualisiert.'',
      lit ''Wenn du das Env anpassen willst, danach z. B.:'',
      lit ''  uv sync'',
      lit ''oder'',
      lit ''  uv lock --upgrade'']"

definition main :: "world \<Rightarrow> state \<Rightarrow> unit result \<times> state" where
  "main w st =
     (case find_project_root w st of
        (SystemExit n, st1) \<Rightarrow> (SystemExit n, st1)
      | (Raised e, st1) \<Rightarrow> (Raised e, st1)
      | (Return project_root, st1) \<Rightarrow>
          (let pyproject_path = project_root @ [manifest_name] in
           if files st1 pyproject_path = None
           then (SystemExit 1,
                 print (lit ''pyproject.toml nicht gefunden unter '' @ path_str pyproject_path) st1)
           else
             (case get_direct_dependency_names w st1 pyproject_path of
                (SystemExit n, st2) \<Rightarrow> (SystemExit n, st2)
              | (Raised e, st2) \<Rightarrow> (Raised e, st2)
              | (Return direct_deps, st2) \<Rightarrow>
                  if direct_deps = {}
                  then (Return (),
                        print (lit ''Keine direkten Dependencies in pyproject.toml gefunden.'') st2)
                  else
                    (let st3 = print (lit ''Direkte Dependencies: '' @
                                  py_join (lit '', '') (sorted_list_of_set direct_deps)) st2
                     in case uv_outdated w of
                          Inl e \<Rightarrow> (Raised e, st3)
                        | Inr outdated \<Rightarrow>
                            (let to_update = filter (\<lambda>p. pkg_name p \<in> direct_deps) outdated in
                             if to_update = []
                             then (Return (),
                                   print (lit ''Keine veralteten direkten Dependencies gefunden.'') st3)
                             else
                               (case versions_loop to_update Map.empty st3 of
                                  (new_versions, st4) \<Rightarrow>
                                    (case update_pyproject_dependencies_block w st4
                                            pyproject_path new_versions of
                                       (SystemExit n, st5) \<Rightarrow> (SystemExit n, st5)
                                     | (Raised e, st5) \<Rightarrow> (Raised e, st5)
                                     | (Return _, st5) \<Rightarrow>
                                         (Return (),
                                          st5\<lparr>stdout := stdout st5 @ closing_lines\<rparr>))))))))"

section \<open>The web service\<close>

text \<open>
  \<^verbatim>\<open>app.py\<close>: the request model and the two handlers. A \<^verbatim>\<open>dict[str, str]\<close> is a map from
  strings to strings.
\<close>

record EchoRequest =
  message :: pystr

definition health :: "pystr \<rightharpoonup> pystr" where
  "health = [lit ''status'' \<mapsto> lit ''ok'']"

definition echo :: "EchoRequest \<Rightarrow> (pystr \<rightharpoonup> pystr)" where
  "echo payload = [lit ''message'' \<mapsto> message payload]"

text \<open>
  The routes the decorators \<^verbatim>\<open>@app.get("/health")\<close> and \<^verbatim>\<open>@app.post("/echo")\<close> register.
  A request carries its method, its path and, when its body is a JSON object, the
  members of that object. A body validates as an \<^verbatim>\<open>EchoRequest\<close> when it is an object with
  a string \<^verbatim>\<open>message\<close>.
\<close>

datatype http_method = GET | POST

datatype json_value = JString pystr | JOther

record request =
  http_method :: http_method
  url_path :: pystr
  json_body :: "(pystr \<rightharpoonup> json_value) option"

text \<open>
  The framework answers the dict a handler returns with status 200 (what
  \<^verbatim>\<open>tests/test_app.py\<close> asserts for both routes) and the dict as a JSON body encoded in
  UTF-8. The payload of \<^verbatim>\<open>health\<close> is ASCII. The payload of \<^verbatim>\<open>echo\<close> carries the message: a
  message that holds a surrogate code point cannot be encoded, and the request is answered
  with status 500 and without the message. Every other request (another path, among them
  \<^verbatim>\<open>/health/\<close> and the documentation pages; another method; a body that does not validate)
  is answered by the framework without a handler of this repository having returned
  anything: \<open>NotHandled\<close>, whatever status the framework chooses.
\<close>

datatype response = JSONResponse nat "pystr \<rightharpoonup> pystr" | ErrorResponse nat | NotHandled

definition validate_EchoRequest :: "(pystr \<rightharpoonup> json_value) option \<Rightarrow> EchoRequest option" where
  "validate_EchoRequest body =
     (case body of
        None \<Rightarrow> None
      | Some obj \<Rightarrow>
          (case obj (lit ''message'') of
             Some (JString m) \<Rightarrow> Some \<lparr>message = m\<rparr>
           | _ \<Rightarrow> None))"

definition app :: "request \<Rightarrow> response" where
  "app r =
     (if url_path r = lit ''/health'' \<and> http_method r = GET then JSONResponse 200 health
      else if url_path r = lit ''/echo'' \<and> http_method r = POST then
        (case validate_EchoRequest (json_body r) of
           Some payload \<Rightarrow>
             (if utf8_encodable (message payload) then JSONResponse 200 (echo payload)
              else ErrorResponse 500)
         | None \<Rightarrow> NotHandled)
      else NotHandled)"

text \<open>
  The service answers the requests it receives one after the other; the module holds
  no variable that a handler writes, so each answer is computed from its request alone.
\<close>

definition serve :: "request list \<Rightarrow> response list" where
  "serve requests = map app requests"

section \<open>Notions used to state the properties\<close>

text \<open>
  The name that the statements of section ``Stripping a declaration to its name''
  compute, in closed form: the text before the first of the characters
  \<^verbatim>\<open>[ < > = ! ~\<close> and space, with surrounding whitespace removed. Lemma
  \<open>dep_name_stripped\<close> proves that \<open>dep_name dep = Inr (stripped_name dep)\<close>.
\<close>

definition stripped_name :: "pystr \<Rightarrow> pystr" where
  "stripped_name dep = py_strip (takeWhile (\<lambda>c. c \<notin> set (lit ''[<>=!~ '')) dep)"

text \<open>
  The bare name of a declaration as the specification words it: the declaration
  without its bracketed extras and without everything from the first version-operator
  character on, the version operators being written with \<^verbatim>\<open>< > = ! ~\<close>.
\<close>

definition version_operator_chars :: "codepoint list" where
  "version_operator_chars = lit ''<>=!~''"

definition spec_bare_name :: "pystr \<Rightarrow> pystr" where
  "spec_bare_name dep =
     takeWhile (\<lambda>c. c \<noteq> lbracket \<and> c \<notin> set version_operator_chars) dep"

text \<open>
  The strings the pattern \<^verbatim>\<open>dependencies\s*=\s*\[(.*?)\]\<close> matches in full, read
  off the pattern itself and not off \<open>match_here\<close>.
\<close>

definition matches_pattern :: "pystr \<Rightarrow> bool" where
  "matches_pattern m \<longleftrightarrow>
     (\<exists>ws1 ws2 body.
        m = keyword @ ws1 @ [equals_sign] @ ws2 @ [lbracket] @ body @ [rbracket] \<and>
        list_all py_isspace ws1 \<and> list_all py_isspace ws2)"

text \<open>The directory \<^verbatim>\<open>_find_project_root\<close> returns, if there is one.\<close>

definition manifest_dir :: "world \<Rightarrow> state \<Rightarrow> path option" where
  "manifest_dir w st =
     find (\<lambda>candidate_dir. files st (candidate_dir @ [manifest_name]) \<noteq> None)
       (cwd w # parents (cwd w))"

text \<open>
  The entry that one pass of the loop of lines 76--93 appends for a declaration, in closed
  form (lemma \<open>update_loop_eq\<close>): the exact pin when the stripped name is a key of the
  dict, the declaration itself otherwise.
\<close>

definition updated_entry :: "(pystr \<rightharpoonup> pystr) \<Rightarrow> pystr \<Rightarrow> pystr" where
  "updated_entry new_versions dep =
     (case new_versions (stripped_name dep) of
        Some v \<Rightarrow> stripped_name dep @ lit ''=='' @ v
      | None \<Rightarrow> dep)"


section \<open>Example data\<close>

text \<open>
  Manifests: one whose dependency array holds the given declarations on one line; one
  without the array; one that writes the key in quotes, which \<^verbatim>\<open>tomllib\<close> reads as the same
  key and the pattern does not match; and the text that the rewrite leaves behind when a
  declaration has extras.
\<close>

definition manifest_with :: "pystr list \<Rightarrow> pystr" where
  "manifest_with deps =
     lit ''[project]'' @ lit [CHR 0x0A] @ lit ''dependencies = ['' @
     py_join (lit '', '') (map (\<lambda>d. lit [CHR 0x22] @ d @ lit [CHR 0x22]) deps) @
     lit '']'' @ lit [CHR 0x0A]"

definition no_block_manifest :: pystr where
  "no_block_manifest =
     lit ''[project]'' @ lit [CHR 0x0A] @ lit ''name = '' @ lit [CHR 0x22] @ lit ''demo'' @
     lit [CHR 0x22] @ lit [CHR 0x0A]"

definition quoted_key_manifest :: pystr where
  "quoted_key_manifest =
     lit ''[project]'' @ lit [CHR 0x0A] @ lit [CHR 0x22] @ lit ''dependencies'' @ lit [CHR 0x22] @
     lit '' = ['' @ lit [CHR 0x22] @ lit ''fastapi==0.1'' @ lit [CHR 0x22] @ lit '']'' @
     lit [CHR 0x0A]"

definition broken_manifest :: pystr where
  "broken_manifest =
     lit ''[project]'' @ lit [CHR 0x0A] @ lit ''dependencies = ['' @ lit [CHR 0x0A] @
     lit ''    '' @ lit [CHR 0x22] @ lit ''uvicorn[standard]>=0.30'' @ lit [CHR 0x22] @ lit '','' @
     lit [CHR 0x0A] @
     lit ''    '' @ lit [CHR 0x22] @ lit ''fastapi==0.2'' @ lit [CHR 0x22] @ lit '','' @
     lit [CHR 0x0A] @
     lit '']>=0.30'' @ lit [CHR 0x22] @ lit '', '' @ lit [CHR 0x22] @ lit ''fastapi==0.1'' @
     lit [CHR 0x22] @ lit '']'' @ lit [CHR 0x0A]"



text \<open>Lists of declarations, the last one with a malformed entry.\<close>

definition extras_deps :: "pystr list" where
  "extras_deps = [lit ''uvicorn[standard]>=0.30'', lit ''fastapi==0.1'']"

definition plain_deps :: "pystr list" where
  "plain_deps = [lit ''requests>=2.0'', lit ''fastapi==0.1'']"

definition quoted_key_deps :: "pystr list" where
  "quoted_key_deps = [lit ''fastapi==0.1'']"

definition example_deps :: "pystr list" where
  "example_deps = [lit ''???'', lit ''fastapi==0.1'']"

text \<open>Outdated listings: one that names a direct dependency of the examples, one that does not.\<close>

definition fastapi_outdated :: "pkg list" where
  "fastapi_outdated =
     [\<lparr>pkg_name = lit ''fastapi'', pkg_version = lit ''0.1'', pkg_latest_version = lit ''0.2''\<rparr>]"

definition numpy_outdated :: "pkg list" where
  "numpy_outdated =
     [\<lparr>pkg_name = lit ''numpy'', pkg_version = lit ''1.0'', pkg_latest_version = lit ''2.0''\<rparr>]"

text \<open>
  Worlds and states: the working directory is \<^verbatim>\<open>/proj/src\<close>, the manifest
  \<^verbatim>\<open>/proj/pyproject.toml\<close> holds the given text, \<^verbatim>\<open>tomllib\<close> reads the given declarations from
  that text (and rejects every other text), and the external command ends as given.
  \<open>empty_state\<close> has no file at all.
\<close>

definition world_for :: "pystr \<Rightarrow> pystr list \<Rightarrow> py_error + pkg list \<Rightarrow> world" where
  "world_for manifest deps listing =
     \<lparr>cwd = [lit ''proj'', lit ''src''],
      toml_dependencies = (\<lambda>text. if text = manifest then Inr deps else Inl LibraryError),
      uv_outdated = listing\<rparr>"

definition state_for :: "pystr \<Rightarrow> state" where
  "state_for manifest = \<lparr>files = [[lit ''proj'', lit ''pyproject.toml''] \<mapsto> manifest], stdout = []\<rparr>"

definition manifest_path :: path where
  "manifest_path = [lit ''proj'', lit ''pyproject.toml'']"

definition empty_state :: state where
  "empty_state = \<lparr>files = Map.empty, stdout = []\<rparr>"

text \<open>Requests to the two routes of the web service.\<close>

definition example_echo_request :: "pystr \<Rightarrow> request" where
  "example_echo_request m =
     \<lparr>http_method = POST, url_path = lit ''/echo'',
      json_body = Some [lit ''message'' \<mapsto> JString m]\<rparr>"

definition example_health_request :: request where
  "example_health_request = \<lparr>http_method = GET, url_path = lit ''/health'', json_body = None\<rparr>"

section \<open>The name of a declaration in closed form\<close>

lemma takeWhile_all: "\<forall>x\<in>set xs. P x \<Longrightarrow> takeWhile P xs = xs"
  by (induction xs) auto

lemma takeWhile_twice:
  "takeWhile P (takeWhile Q xs) = takeWhile (\<lambda>x. Q x \<and> P x) xs"
  by (induction xs) auto

lemma dropWhile_fixed: "xs = [] \<or> \<not> P (hd xs) \<Longrightarrow> dropWhile P xs = xs"
  by (cases xs) auto

lemma last_dropWhile: "dropWhile P xs \<noteq> [] \<Longrightarrow> last (dropWhile P xs) = last xs"
  by (induction xs) (auto split: if_splits)

text \<open>\<^verbatim>\<open>token.split(sep, 1)[0]\<close> never fails and is the text before the first \<open>sep\<close>.\<close>

lemma cut_at_eq: "cut_at sep token = Inr (takeWhile (\<lambda>c. c \<noteq> sep) token)"
proof (cases "sep \<in> set token")
  case True
  then show ?thesis by (simp add: cut_at_def item0_def py_split1_def)
next
  case False
  then have eq: "takeWhile (\<lambda>c. c \<noteq> sep) token = token"
    by (intro takeWhile_all) auto
  from False have "cut_at sep token = Inr token"
    by (simp add: cut_at_def)
  then show ?thesis by (simp only: eq)
qed

text \<open>Cutting at one separator after the other cuts at the first character that is any of them.\<close>

lemma cut_seps_eq: "cut_seps seps token = Inr (takeWhile (\<lambda>c. c \<notin> set seps) token)"
proof (induction seps arbitrary: token)
  case Nil
  then show ?case by (simp add: takeWhile_all)
next
  case (Cons sep seps)
  have "(\<lambda>c. c \<noteq> sep \<and> c \<notin> set seps) = (\<lambda>c. c \<notin> set (sep # seps))"
    by auto
  then show ?case
    by (simp add: cut_at_eq Cons.IH takeWhile_twice del: set_simps)
qed

lemma cut_chars: "lbracket # version_seps = lit ''[<>=!~ ''"
  by (simp add: lbracket_def version_seps_def lit_def)

lemma dep_name_eq:
  "dep_name dep = Inr (py_strip (takeWhile (\<lambda>c. c \<notin> set (lit ''[<>=!~ '')) dep))"
proof -
  have "(\<lambda>c. c \<noteq> lbracket \<and> c \<notin> set version_seps) = (\<lambda>c. c \<notin> set (lbracket # version_seps))"
    by auto
  then have "dep_name dep = Inr (py_strip (takeWhile (\<lambda>c. c \<notin> set (lbracket # version_seps)) dep))"
    by (simp add: dep_name_def cut_at_eq cut_seps_eq takeWhile_twice del: set_simps)
  then show ?thesis by (simp only: cut_chars)
qed

lemma dep_name_stripped: "dep_name dep = Inr (stripped_name dep)"
  by (simp only: dep_name_eq stripped_name_def)

lemma names_loop_eq:
  "names_loop deps names = Inr (names \<union> (stripped_name ` set deps - {[]}))"
proof (induction deps arbitrary: names)
  case Nil
  then show ?case by simp
next
  case (Cons dep deps)
  then show ?case by (auto simp add: dep_name_stripped)
qed

lemma dependency_names_stripped:
  "dependency_names deps = Inr (stripped_name ` set deps - {[]})"
  by (simp add: dependency_names_def names_loop_eq)

lemma py_strip_idem: "py_strip (py_strip s) = py_strip s"
proof -
  let ?u = "dropWhile py_isspace s"
  let ?t = "dropWhile py_isspace (rev ?u)"
  have b: "dropWhile py_isspace (rev ?t) = rev ?t"
  proof (rule dropWhile_fixed, cases "?t = []")
    case True
    then show "rev ?t = [] \<or> \<not> py_isspace (hd (rev ?t))" by simp
  next
    case False
    then have "last ?t = last (rev ?u)"
      by (rule last_dropWhile)
    moreover have u: "?u \<noteq> []"
    proof
      assume "?u = []"
      then have "?t = []" by (simp only: rev.simps dropWhile.simps)
      with False show False by contradiction
    qed
    ultimately have "hd (rev ?t) = hd ?u"
      using False by (simp add: hd_rev last_rev)
    moreover have "\<not> py_isspace (hd ?u)"
      using u by (rule hd_dropWhile)
    ultimately show "rev ?t = [] \<or> \<not> py_isspace (hd (rev ?t))" by simp
  qed
  show ?thesis
    by (simp add: py_strip_def b)
qed

lemma set_py_strip: "set (py_strip s) \<subseteq> set s"
proof
  fix x
  assume "x \<in> set (py_strip s)"
  then have "x \<in> set (dropWhile py_isspace (rev (dropWhile py_isspace s)))"
    by (simp add: py_strip_def)
  then have "x \<in> set (rev (dropWhile py_isspace s))"
    by (rule set_dropWhileD)
  then have "x \<in> set (dropWhile py_isspace s)"
    by simp
  then show "x \<in> set s"
    by (rule set_dropWhileD)
qed

lemma stripped_name_idem: "stripped_name (stripped_name dep) = stripped_name dep"
proof -
  let ?P = "\<lambda>c. c \<notin> set (lit ''[<>=!~ '')"
  let ?n = "py_strip (takeWhile ?P dep)"
  have "set ?n \<subseteq> set (takeWhile ?P dep)"
    by (rule set_py_strip)
  then have "\<forall>c\<in>set ?n. ?P c"
    using set_takeWhileD by fastforce
  then have "takeWhile ?P ?n = ?n"
    by (rule takeWhile_all)
  then show ?thesis
    by (simp only: stripped_name_def py_strip_idem)
qed

lemma stripped_name_unchanged:
  assumes "dep \<noteq> []"
    and "list_all (\<lambda>c. c \<notin> set (lit ''[<>=!~ '') \<and> \<not> py_isspace c) dep"
  shows "stripped_name dep = dep"
proof -
  from assms(2) have all: "\<forall>c\<in>set dep. c \<notin> set (lit ''[<>=!~ '') \<and> \<not> py_isspace c"
    by (simp only: list_all_iff)
  then have t: "takeWhile (\<lambda>c. c \<notin> set (lit ''[<>=!~ '')) dep = dep"
    by (intro takeWhile_all) blast
  from assms(1) obtain c cs where dep: "dep = c # cs" by (cases dep) auto
  with all have "\<not> py_isspace c" by simp
  then have d1: "dropWhile py_isspace dep = dep" by (simp add: dep)
  from assms(1) all have "\<not> py_isspace (last dep)" by (meson last_in_set)
  then have "\<not> py_isspace (hd (rev dep))" using assms(1) by (simp add: hd_rev)
  then have d2: "dropWhile py_isspace (rev dep) = rev dep"
    by (intro dropWhile_fixed) simp
  show ?thesis
    by (simp only: stripped_name_def t py_strip_def d1 d2 rev_rev_ident)
qed

section \<open>Dependency-name extraction\<close>

text \<open>
  C3 holds of what the function is written to do and fails on the code. The declaration
  \<^verbatim>\<open>" requests>=2"\<close> (PEP 508 allows white space around the name) has the bare name
  \<^verbatim>\<open>requests\<close>, and extraction returns the empty set: the tuple of separators of line 45
  holds the space, so \<^verbatim>\<open>split(" ", 1)[0]\<close> cuts the declaration before its first character
  and the guard \<^verbatim>\<open>if name:\<close> drops the empty result. The \<^verbatim>\<open>strip()\<close> of line 48 is there to
  remove such white space, and does so when it is a TAB or when it follows the name:
  \<^verbatim>\<open>"\trequests>=2"\<close> and \<^verbatim>\<open>"requests >=2"\<close> both yield \<^verbatim>\<open>requests\<close>. Only a leading
  U+0020 loses the name, and with it the package is no longer updated.
\<close>

theorem leading_space_loses_the_name:
  "spec_bare_name (lit '' requests>=2'') = lit '' requests'' \<and>
   py_strip (spec_bare_name (lit '' requests>=2'')) = lit ''requests'' \<and>
   dependency_names [lit '' requests>=2''] = Inr {} \<and>
   dependency_names [lit [CHR 0x09] @ lit ''requests>=2''] = Inr {lit ''requests''} \<and>
   dependency_names [lit ''requests >=2''] = Inr {lit ''requests''} \<and>
   dependency_names [lit ''requests>=2''] = Inr {lit ''requests''}"
  by (simp add: dependency_names_stripped stripped_name_def spec_bare_name_def
      version_operator_chars_def lbracket_def py_strip_def py_isspace_def lit_def)

text \<open>
  C4: stripping a stripped name returns it unchanged, so extracting from any list that
  enumerates an extracted set returns that set again; and two lists with the same
  entries, in whatever order and however often repeated, give the same set.
\<close>

theorem names_idempotent_order_independent:
  "(dep_name dep = Inr n \<longrightarrow> dep_name n = Inr n) \<and>
   (dependency_names deps = Inr names \<and> set extracted = names \<longrightarrow>
      dependency_names extracted = Inr names) \<and>
   (set deps' = set deps \<longrightarrow> dependency_names deps' = dependency_names deps)"
proof (intro conjI impI)
  assume "dep_name dep = Inr n"
  then have "n = stripped_name dep"
    by (simp add: dep_name_stripped)
  then show "dep_name n = Inr n"
    by (simp add: dep_name_stripped stripped_name_idem)
next
  assume a: "dependency_names deps = Inr names \<and> set extracted = names"
  then have names: "names = stripped_name ` set deps - {[]}"
    by (simp add: dependency_names_stripped)
  have "stripped_name ` names - {[]} = names"
  proof
    show "stripped_name ` names - {[]} \<subseteq> names"
      unfolding names by (auto simp: stripped_name_idem)
    show "names \<subseteq> stripped_name ` names - {[]}"
    proof
      fix x assume x: "x \<in> names"
      then have "stripped_name x = x" and "x \<noteq> []"
        unfolding names by (auto simp: stripped_name_idem)
      with x show "x \<in> stripped_name ` names - {[]}" by force
    qed
  qed
  with a show "dependency_names extracted = Inr names"
    by (simp add: dependency_names_stripped)
next
  assume "set deps' = set deps"
  then show "dependency_names deps' = dependency_names deps"
    by (simp add: dependency_names_stripped)
qed

theorem names_idempotent_order_independent_witness:
  "dep_name (lit ''uvicorn'') = Inr (lit ''uvicorn'') \<and>
   dependency_names [lit ''fastapi'', lit ''uvicorn''] = Inr {lit ''uvicorn'', lit ''fastapi''} \<and>
   dependency_names [lit ''fastapi==0.1'', lit ''uvicorn[standard]>=0.30'', lit ''fastapi==0.1''] =
     dependency_names [lit ''uvicorn[standard]>=0.30'', lit ''fastapi==0.1'']"
proof -
  have h1: "dep_name (lit ''uvicorn[standard]>=0.30'') = Inr (lit ''uvicorn'')"
    by (simp add: dep_name_eq py_strip_def py_isspace_def lit_def)
  have h2: "dependency_names [lit ''uvicorn[standard]>=0.30'', lit ''fastapi==0.1''] =
      Inr {lit ''uvicorn'', lit ''fastapi''} \<and>
    set [lit ''fastapi'', lit ''uvicorn''] = {lit ''uvicorn'', lit ''fastapi''}"
    by (simp add: dependency_names_stripped stripped_name_def py_strip_def py_isspace_def
        lit_def insert_commute)
  have h3: "set [lit ''fastapi==0.1'', lit ''uvicorn[standard]>=0.30'', lit ''fastapi==0.1''] =
      set [lit ''uvicorn[standard]>=0.30'', lit ''fastapi==0.1'']"
    by (simp add: insert_commute)
  note T = names_idempotent_order_independent
      [of "lit ''uvicorn[standard]>=0.30''" "lit ''uvicorn''"
          "[lit ''uvicorn[standard]>=0.30'', lit ''fastapi==0.1'']" "{lit ''uvicorn'', lit ''fastapi''}"
          "[lit ''fastapi'', lit ''uvicorn'']"
          "[lit ''fastapi==0.1'', lit ''uvicorn[standard]>=0.30'', lit ''fastapi==0.1'']"]
  have c1: "dep_name (lit ''uvicorn'') = Inr (lit ''uvicorn'')"
    by (rule mp [OF T [THEN conjunct1] h1])
  have c2: "dependency_names [lit ''fastapi'', lit ''uvicorn''] = Inr {lit ''uvicorn'', lit ''fastapi''}"
    by (rule mp [OF T [THEN conjunct2, THEN conjunct1] h2])
  have c3: "dependency_names [lit ''fastapi==0.1'', lit ''uvicorn[standard]>=0.30'', lit ''fastapi==0.1''] =
      dependency_names [lit ''uvicorn[standard]>=0.30'', lit ''fastapi==0.1'']"
    by (rule mp [OF T [THEN conjunct2, THEN conjunct2] h3])
  from c1 c2 c3 show ?thesis by (intro conjI)
qed

text \<open>
  C8: on every list of strings the loop returns a set and raises nothing; the function
  around it leaves the files and the output as they were, and returns whenever the
  manifest is there and loads; and a malformed entry is not rejected: one that holds
  none of the separator characters and no whitespace goes into the set as it is.
\<close>

theorem names_extraction_total_pure:
  "(\<exists>names. dependency_names deps = Inr names) \<and>
   snd (get_direct_dependency_names w st pyproject_path) = st \<and>
   (files st pyproject_path = Some text \<and> toml_dependencies w text = Inr deps \<longrightarrow>
      (\<exists>names. get_direct_dependency_names w st pyproject_path = (Return names, st))) \<and>
   (dep \<in> set deps \<and> dep \<noteq> [] \<and>
    list_all (\<lambda>c. c \<notin> set (lit ''[<>=!~ '') \<and> \<not> py_isspace c) dep \<and>
    dependency_names deps = Inr names \<longrightarrow> dep \<in> names)"
proof (intro conjI impI)
  show "\<exists>names. dependency_names deps = Inr names"
    by (simp add: dependency_names_stripped)
  show "snd (get_direct_dependency_names w st pyproject_path) = st"
    by (simp add: get_direct_dependency_names_def split: option.splits sum.splits)
next
  assume "files st pyproject_path = Some text \<and> toml_dependencies w text = Inr deps"
  then show "\<exists>names. get_direct_dependency_names w st pyproject_path = (Return names, st)"
    by (simp add: get_direct_dependency_names_def dependency_names_stripped)
next
  assume a: "dep \<in> set deps \<and> dep \<noteq> [] \<and>
      list_all (\<lambda>c. c \<notin> set (lit ''[<>=!~ '') \<and> \<not> py_isspace c) dep \<and>
      dependency_names deps = Inr names"
  then have "stripped_name dep = dep"
    by (intro stripped_name_unchanged) blast+
  moreover from a have "dep \<in> set deps" and "dep \<noteq> []" by blast+
  ultimately have "dep \<in> stripped_name ` set deps - {[]}"
    by (metis DiffI image_eqI singletonD)
  moreover from a have "names = stripped_name ` set deps - {[]}"
    by (simp add: dependency_names_stripped)
  ultimately show "dep \<in> names" by (simp only:)
qed

theorem names_extraction_total_pure_witness:
  "(\<exists>names. get_direct_dependency_names (world_for (lit ''x'') example_deps (Inr []))
       (state_for (lit ''x'')) manifest_path = (Return names, state_for (lit ''x''))) \<and>
   lit ''???'' \<in> {lit ''???'', lit ''fastapi''}"
proof -
  have h1: "files (state_for (lit ''x'')) manifest_path = Some (lit ''x'') \<and>
      toml_dependencies (world_for (lit ''x'') example_deps (Inr [])) (lit ''x'') = Inr example_deps"
    by (simp add: state_for_def world_for_def manifest_path_def)
  have h2: "lit ''???'' \<in> set example_deps \<and> lit ''???'' \<noteq> [] \<and>
      list_all (\<lambda>c. c \<notin> set (lit ''[<>=!~ '') \<and> \<not> py_isspace c) (lit ''???'') \<and>
      dependency_names example_deps = Inr {lit ''???'', lit ''fastapi''}"
    by (simp add: example_deps_def dependency_names_stripped stripped_name_def py_strip_def
        py_isspace_def lit_def)
  note T = names_extraction_total_pure
      [of example_deps "world_for (lit ''x'') example_deps (Inr [])" "state_for (lit ''x'')"
          manifest_path "lit ''x''" "lit ''???''" "{lit ''???'', lit ''fastapi''}"]
  have c1: "\<exists>names. get_direct_dependency_names (world_for (lit ''x'') example_deps (Inr []))
       (state_for (lit ''x'')) manifest_path = (Return names, state_for (lit ''x''))"
    by (rule mp [OF T [THEN conjunct2, THEN conjunct2, THEN conjunct1] h1])
  have c2: "lit ''???'' \<in> {lit ''???'', lit ''fastapi''}"
    by (rule mp [OF T [THEN conjunct2, THEN conjunct2, THEN conjunct2] h2])
  from c1 c2 show ?thesis by (intro conjI)
qed

section \<open>The web service: echo and health\<close>

text \<open>
  C6, as the specification states it, fails on a string payload: a message that is the
  lone surrogate U+D800 (the JSON body \<^verbatim>\<open>{"message": "\ud800"}\<close>) is a string, the handler
  returns it, and the request is answered with status 500 and no message, because the
  answer cannot be encoded.
\<close>

theorem echo_lone_surrogate_not_returned:
  "echo \<lparr>message = [55296]\<rparr> = [lit ''message'' \<mapsto> [55296]] \<and>
   app (example_echo_request [55296]) = ErrorResponse 500 \<and>
   app (example_echo_request [55296]) \<noteq> JSONResponse 200 [lit ''message'' \<mapsto> [55296]]"
  by (simp add: echo_def app_def validate_EchoRequest_def example_echo_request_def
      utf8_encodable_def lit_def)

text \<open>
  C6, amended: whatever string the \<^verbatim>\<open>message\<close> field holds, the handler returns it
  unchanged under the key \<^verbatim>\<open>message\<close>. A \<^verbatim>\<open>POST /echo\<close> whose body carries the message is
  answered with status 200 and that payload, the message unchanged, when no code point
  of the message is a surrogate (U+D800..U+DFFF), the empty string and text beyond ASCII
  included; and with status 500 when one is.
\<close>

theorem echo_returns_encodable_message:
  "echo \<lparr>message = m\<rparr> = [lit ''message'' \<mapsto> m] \<and>
   echo \<lparr>message = m\<rparr> (lit ''message'') = Some m \<and>
   (http_method r = POST \<and> url_path r = lit ''/echo'' \<and> json_body r = Some obj \<and>
    obj (lit ''message'') = Some (JString m) \<longrightarrow>
      app r = (if \<forall>c\<in>set m. c < 55296 \<or> 57343 < c
               then JSONResponse 200 [lit ''message'' \<mapsto> m]
               else ErrorResponse 500))"
  by (auto simp add: echo_def app_def validate_EchoRequest_def utf8_encodable_def list_all_iff
      lit_def)

theorem echo_returns_encodable_message_witness:
  "app (example_echo_request []) = JSONResponse 200 [lit ''message'' \<mapsto> []] \<and>
   app (example_echo_request [228, 8364, 128512]) =
     JSONResponse 200 [lit ''message'' \<mapsto> [228, 8364, 128512]] \<and>
   app (example_echo_request [104, 55296]) = ErrorResponse 500"
proof -
  have h: "http_method (example_echo_request m) = POST \<and>
      url_path (example_echo_request m) = lit ''/echo'' \<and>
      json_body (example_echo_request m) = Some [lit ''message'' \<mapsto> JString m] \<and>
      [lit ''message'' \<mapsto> JString m] (lit ''message'') = Some (JString m)" for m
    by (simp add: example_echo_request_def)
  have c: "app (example_echo_request m) =
      (if \<forall>c\<in>set m. c < 55296 \<or> 57343 < c
       then JSONResponse 200 [lit ''message'' \<mapsto> m] else ErrorResponse 500)" for m
    by (rule mp [OF echo_returns_encodable_message
          [of m "example_echo_request m" "[lit ''message'' \<mapsto> JString m]",
            THEN conjunct2, THEN conjunct2] h])
  have c1: "app (example_echo_request []) = JSONResponse 200 [lit ''message'' \<mapsto> []]"
    using c [of "[]"] by simp
  have c2: "app (example_echo_request [228, 8364, 128512]) =
     JSONResponse 200 [lit ''message'' \<mapsto> [228, 8364, 128512]]"
    using c [of "[228, 8364, 128512]"] by simp
  have c3: "app (example_echo_request [104, 55296]) = ErrorResponse 500"
    using c [of "[104, 55296]"] by simp
  from c1 c2 c3 show ?thesis by (intro conjI)
qed

text \<open>
  C7: a \<^verbatim>\<open>GET /health\<close> is answered with status 200 and the payload
  \<^verbatim>\<open>{"status": "ok"}\<close>, whatever else the request carries and whatever requests were
  served before it.
\<close>

theorem health_fixed_payload:
  "health = [lit ''status'' \<mapsto> lit ''ok''] \<and>
   (http_method r = GET \<and> url_path r = lit ''/health'' \<longrightarrow>
      app r = JSONResponse 200 [lit ''status'' \<mapsto> lit ''ok'']) \<and>
   (i < length requests \<and> http_method (requests ! i) = GET \<and>
    url_path (requests ! i) = lit ''/health'' \<longrightarrow>
      serve requests ! i = JSONResponse 200 [lit ''status'' \<mapsto> lit ''ok''])"
  by (simp add: health_def app_def serve_def)

theorem health_fixed_payload_witness:
  "app example_health_request = JSONResponse 200 [lit ''status'' \<mapsto> lit ''ok''] \<and>
   serve [example_echo_request (lit ''hello world''), example_health_request,
          example_health_request] ! 2 = JSONResponse 200 [lit ''status'' \<mapsto> lit ''ok'']"
proof -
  let ?rs = "[example_echo_request (lit ''hello world''), example_health_request,
          example_health_request]"
  have h1: "http_method example_health_request = GET \<and>
      url_path example_health_request = lit ''/health''"
    by (simp add: example_health_request_def)
  have h2: "2 < length ?rs \<and> http_method (?rs ! 2) = GET \<and> url_path (?rs ! 2) = lit ''/health''"
    by (simp add: example_health_request_def)
  note T = health_fixed_payload [of example_health_request 2 ?rs]
  have c1: "app example_health_request = JSONResponse 200 [lit ''status'' \<mapsto> lit ''ok'']"
    by (rule mp [OF T [THEN conjunct2, THEN conjunct1] h1])
  have c2: "serve ?rs ! 2 = JSONResponse 200 [lit ''status'' \<mapsto> lit ''ok'']"
    by (rule mp [OF T [THEN conjunct2, THEN conjunct2] h2])
  from c1 c2 show ?thesis by (intro conjI)
qed

text \<open>The two tests of \<^verbatim>\<open>tests/test_app.py\<close> pass on the model.\<close>

lemma test_health_endpoint:
  "app \<lparr>http_method = GET, url_path = lit ''/health'', json_body = None\<rparr> =
     JSONResponse 200 [lit ''status'' \<mapsto> lit ''ok'']"
  by (simp add: app_def health_def)

lemma test_echo_endpoint:
  "\<exists>body. app \<lparr>http_method = POST, url_path = lit ''/echo'',
       json_body = Some [lit ''message'' \<mapsto> JString (lit ''hello world'')]\<rparr> = JSONResponse 200 body \<and>
     body (lit ''message'') = Some (lit ''hello world'')"
  by (simp add: app_def echo_def validate_EchoRequest_def utf8_encodable_def lit_def)

section \<open>The rewrite loop in closed form\<close>

lemma update_loop_eq:
  "update_loop new_versions deps updated_deps =
     Inr (updated_deps @ map (updated_entry new_versions) deps)"
  by (induction deps arbitrary: updated_deps)
     (simp_all add: dep_name_stripped updated_entry_def split: option.splits)

lemma updated_entry_foreign_key:
  "k \<noteq> stripped_name dep \<Longrightarrow> updated_entry (new_versions(k := x)) dep = updated_entry new_versions dep"
  by (simp add: updated_entry_def)

lemma map_updated_entry_foreign_key:
  assumes "k \<notin> stripped_name ` set deps"
  shows "map (updated_entry (new_versions(k := x))) deps = map (updated_entry new_versions) deps"
proof (rule map_cong [OF refl])
  fix dep assume "dep \<in> set deps"
  with assms have "k \<noteq> stripped_name dep" by blast
  then show "updated_entry (new_versions(k := x)) dep = updated_entry new_versions dep"
    by (rule updated_entry_foreign_key)
qed

section \<open>The pattern and its first match\<close>

lemma keyword_length: "length keyword = 12"
  by (simp add: keyword_def lit_def)

lemma not_space_equals: "\<not> py_isspace equals_sign"
  by (simp add: py_isspace_def equals_sign_def)

lemma not_space_lbracket: "\<not> py_isspace lbracket"
  by (simp add: py_isspace_def lbracket_def)

lemma dropWhile_run:
  "list_all P ws \<Longrightarrow> \<not> P c \<Longrightarrow> dropWhile P (ws @ c # xs) = c # xs"
  by (induction ws) auto





lemma match_here_intro:
  assumes "s = keyword @ ws1 @ [equals_sign] @ ws2 @ [lbracket] @ body @ [rbracket] @ rest"
    and "list_all py_isspace ws1" and "list_all py_isspace ws2"
  shows "\<exists>n. match_here s = Some n"
proof -
  have kw: "starts_with keyword s"
    by (simp add: starts_with_def assms(1))
  have d0: "drop (length keyword) s = ws1 @ equals_sign # ws2 @ lbracket # body @ rbracket # rest"
    by (simp add: assms(1))
  have d1: "dropWhile py_isspace (drop (length keyword) s) =
      equals_sign # ws2 @ lbracket # body @ rbracket # rest"
    unfolding d0 using assms(2) not_space_equals by (rule dropWhile_run)
  have d2: "dropWhile py_isspace (ws2 @ lbracket # body @ rbracket # rest) =
      lbracket # body @ rbracket # rest"
    using assms(3) not_space_lbracket by (rule dropWhile_run)
  have "match_here s =
      Some (length s - length (tl (dropWhile (\<lambda>x. x \<noteq> rbracket) (body @ rbracket # rest))))"
    unfolding match_here_def by (simp only: kw d1 d2 if_True list.case simp_thms if_False)
       simp
  then show ?thesis by blast
qed






lemma matches_pattern_match_here:
  assumes "matches_pattern (take k s)"
  shows "\<exists>n. match_here s = Some n"
proof -
  from assms obtain ws1 ws2 body where
    m: "take k s = keyword @ ws1 @ [equals_sign] @ ws2 @ [lbracket] @ body @ [rbracket]"
    and w1: "list_all py_isspace ws1" and w2: "list_all py_isspace ws2"
    unfolding matches_pattern_def by blast
  define d where "d = drop k s"
  have "take k s @ d = s"
    unfolding d_def by (rule append_take_drop_id)
  then have "keyword @ ws1 @ [equals_sign] @ ws2 @ [lbracket] @ body @ [rbracket] @ d = s"
    unfolding m by simp
  then have "s = keyword @ ws1 @ [equals_sign] @ ws2 @ [lbracket] @ body @ [rbracket] @ d"
    by (rule sym)
  then show ?thesis using w1 w2 by (rule match_here_intro)
qed


lemma match_here_Nil: "match_here [] = None"
  by (simp add: match_here_def starts_with_def keyword_def lit_def)

lemma pattern_search_None:
  "pattern_search t = None \<Longrightarrow> match_here (drop s t) = None"
proof (induction t arbitrary: s)
  case Nil
  then show ?case by (simp add: match_here_Nil)
next
  case (Cons c cs)
  from Cons.prems have h: "match_here (c # cs) = None" and t: "pattern_search cs = None"
    by (auto split: option.splits)
  show ?case
  proof (cases s)
    case 0
    with h show ?thesis by simp
  next
    case (Suc s')
    with Cons.IH [OF t] show ?thesis by simp
  qed
qed



lemma pattern_search_no_match:
  assumes "pattern_search t = None"
  shows "\<not> matches_pattern (take n (drop s t))"
proof
  assume "matches_pattern (take n (drop s t))"
  then have "\<exists>n. match_here (drop s t) = Some n" by (rule matches_pattern_match_here)
  with pattern_search_None [OF assms, of s] show False by simp
qed

section \<open>The runs of \<^verbatim>\<open>main\<close>, case by case\<close>

lemma files_print [simp]: "files (print line st) = files st"
  by (simp add: print_def)

lemma stdout_print [simp]: "stdout (print line st) = stdout st @ [line]"
  by (simp add: print_def)

lemma files_versions_loop [simp]:
  "files (snd (versions_loop ps new_versions st)) = files st"
  by (induction ps arbitrary: new_versions st) simp_all

lemma stdout_versions_loop:
  "stdout (snd (versions_loop ps new_versions st)) =
     stdout st @ map (\<lambda>p. pkg_name p @ lit '': '' @ pkg_version p @ lit '' -> '' @ pkg_latest_version p) ps"
  by (induction ps arbitrary: new_versions st) simp_all

lemma fst_versions_loop:
  "fst (versions_loop ps new_versions st) =
     foldl (\<lambda>m p. m(pkg_name p \<mapsto> pkg_latest_version p)) new_versions ps"
  by (induction ps arbitrary: new_versions st) simp_all

lemma update_block_no_match:
  assumes "files st p = Some text" and "pattern_search text = None"
  shows "update_pyproject_dependencies_block w st p new_versions =
    (SystemExit 1, print (lit ''Kein [project].dependencies Block in pyproject.toml gefunden.'') st)"
  using assms by (simp add: update_pyproject_dependencies_block_def)

lemma update_block_match:
  assumes "files st p = Some text" and "pattern_search text = Some (s, e)"
    and "toml_dependencies w text = Inr deps"
  shows "update_pyproject_dependencies_block w st p new_versions =
    (Return (),
     st\<lparr>files := (files st)(p \<mapsto>
        take s text @ new_block (map (updated_entry new_versions) deps) @ drop e text)\<rparr>)"
  using assms by (simp add: update_pyproject_dependencies_block_def update_loop_eq)

lemma manifest_dir_SomeD:
  "manifest_dir w st = Some root \<Longrightarrow> files st (root @ [manifest_name]) \<noteq> None"
proof -
  assume "manifest_dir w st = Some root"
  then have "\<exists>i<length (cwd w # parents (cwd w)).
      files st ((cwd w # parents (cwd w)) ! i @ [manifest_name]) \<noteq> None \<and>
      root = (cwd w # parents (cwd w)) ! i \<and>
      (\<forall>j<i. \<not> files st ((cwd w # parents (cwd w)) ! j @ [manifest_name]) \<noteq> None)"
    unfolding manifest_dir_def by (simp only: find_Some_iff)
  then show ?thesis by blast
qed

lemma main_no_manifest:
  assumes "manifest_dir w st = None"
  shows "main w st =
    (SystemExit 1,
     print (lit ''No pyproject.toml found upwards from current working directory.'') st)"
  using assms by (simp add: main_def find_project_root_def manifest_dir_def)

lemma main_load_error:
  assumes "manifest_dir w st = Some root" and "files st (root @ [manifest_name]) = Some text"
    and "toml_dependencies w text = Inl err"
  shows "main w st = (Raised err, st)"
  using assms
  by (simp add: main_def find_project_root_def manifest_dir_def get_direct_dependency_names_def)

lemma main_no_direct_deps:
  assumes "manifest_dir w st = Some root" and "files st (root @ [manifest_name]) = Some text"
    and "toml_dependencies w text = Inr deps" and "dependency_names deps = Inr {}"
  shows "main w st =
    (Return (), print (lit ''Keine direkten Dependencies in pyproject.toml gefunden.'') st)"
  using assms
  by (simp add: main_def find_project_root_def manifest_dir_def get_direct_dependency_names_def)

lemma main_listing_error:
  assumes "manifest_dir w st = Some root" and "files st (root @ [manifest_name]) = Some text"
    and "toml_dependencies w text = Inr deps" and "dependency_names deps = Inr names"
    and "names \<noteq> {}" and "uv_outdated w = Inl err"
  shows "fst (main w st) = Raised err" and "files (snd (main w st)) = files st"
  using assms
  by (simp_all add: main_def find_project_root_def manifest_dir_def
      get_direct_dependency_names_def Let_def)

lemma main_nothing_outdated:
  assumes "manifest_dir w st = Some root" and "files st (root @ [manifest_name]) = Some text"
    and "toml_dependencies w text = Inr deps" and "dependency_names deps = Inr names"
    and "names \<noteq> {}" and "uv_outdated w = Inr outdated"
    and "filter (\<lambda>p. pkg_name p \<in> names) outdated = []"
  shows "main w st =
    (Return (),
     print (lit ''Keine veralteten direkten Dependencies gefunden.'')
       (print (lit ''Direkte Dependencies: '' @ py_join (lit '', '') (sorted_list_of_set names)) st))"
  using assms
  by (simp add: main_def find_project_root_def manifest_dir_def
      get_direct_dependency_names_def Let_def)

lemma main_rewrite_no_block:
  assumes "manifest_dir w st = Some root" and "files st (root @ [manifest_name]) = Some text"
    and "toml_dependencies w text = Inr deps" and "dependency_names deps = Inr names"
    and "names \<noteq> {}" and "uv_outdated w = Inr outdated"
    and "filter (\<lambda>p. pkg_name p \<in> names) outdated \<noteq> []"
    and "pattern_search text = None"
  shows "fst (main w st) = SystemExit 1"
    and "files (snd (main w st)) = files st"
    and "last (stdout (snd (main w st))) =
      lit ''Kein [project].dependencies Block in pyproject.toml gefunden.''"
proof -
  let ?st3 = "print (lit ''Direkte Dependencies: '' @ py_join (lit '', '') (sorted_list_of_set names)) st"
  let ?vl = "versions_loop (filter (\<lambda>p. pkg_name p \<in> names) outdated) Map.empty ?st3"
  have f: "files (snd ?vl) (root @ [manifest_name]) = Some text"
    using assms(2) by simp
  have u: "update_pyproject_dependencies_block w (snd ?vl) (root @ [manifest_name]) (fst ?vl) =
    (SystemExit 1, print (lit ''Kein [project].dependencies Block in pyproject.toml gefunden.'') (snd ?vl))"
    using f assms(8) by (rule update_block_no_match)
  have m: "main w st =
    (SystemExit 1, print (lit ''Kein [project].dependencies Block in pyproject.toml gefunden.'') (snd ?vl))"
    using assms u
    by (simp add: main_def find_project_root_def manifest_dir_def
        get_direct_dependency_names_def Let_def case_prod_beta)
  show "fst (main w st) = SystemExit 1" by (simp add: m)
  show "files (snd (main w st)) = files st" by (simp add: m)
  show "last (stdout (snd (main w st))) =
      lit ''Kein [project].dependencies Block in pyproject.toml gefunden.''"
    by (simp add: m)
qed

lemma main_rewrite_done:
  assumes "manifest_dir w st = Some root" and "files st (root @ [manifest_name]) = Some text"
    and "toml_dependencies w text = Inr deps" and "dependency_names deps = Inr names"
    and "names \<noteq> {}" and "uv_outdated w = Inr outdated"
    and "filter (\<lambda>p. pkg_name p \<in> names) outdated \<noteq> []"
    and "pattern_search text = Some (s, e)"
  shows "fst (main w st) = Return ()"
    and "files (snd (main w st)) = (files st)(root @ [manifest_name] \<mapsto>
        take s text @
        new_block (map (updated_entry
          (foldl (\<lambda>m p. m(pkg_name p \<mapsto> pkg_latest_version p)) Map.empty
             (filter (\<lambda>p. pkg_name p \<in> names) outdated))) deps) @
        drop e text)"
proof -
  let ?st3 = "print (lit ''Direkte Dependencies: '' @ py_join (lit '', '') (sorted_list_of_set names)) st"
  let ?vl = "versions_loop (filter (\<lambda>p. pkg_name p \<in> names) outdated) Map.empty ?st3"
  let ?p = "root @ [manifest_name]"
  have f: "files (snd ?vl) ?p = Some text"
    using assms(2) by simp
  have u: "update_pyproject_dependencies_block w (snd ?vl) ?p (fst ?vl) =
    (Return (),
     (snd ?vl)\<lparr>files := (files (snd ?vl))(?p \<mapsto>
        take s text @ new_block (map (updated_entry (fst ?vl)) deps) @ drop e text)\<rparr>)"
    using f assms(8) assms(3) by (rule update_block_match)
  have m: "main w st =
    (Return (),
     (snd ?vl)\<lparr>files := (files (snd ?vl))(?p \<mapsto>
        take s text @ new_block (map (updated_entry (fst ?vl)) deps) @ drop e text)\<rparr>
       \<lparr>stdout := stdout (snd ?vl) @ closing_lines\<rparr>)"
    using assms u
    by (simp add: main_def find_project_root_def manifest_dir_def
        get_direct_dependency_names_def Let_def case_prod_beta)
  show "fst (main w st) = Return ()" by (simp add: m)
  show "files (snd (main w st)) = (files st)(root @ [manifest_name] \<mapsto>
        take s text @
        new_block (map (updated_entry
          (foldl (\<lambda>m p. m(pkg_name p \<mapsto> pkg_latest_version p)) Map.empty
             (filter (\<lambda>p. pkg_name p \<in> names) outdated))) deps) @
        drop e text)"
    by (simp add: m fst_versions_loop)
qed

section \<open>The example manifests evaluated\<close>

lemmas eval_defs =
  lit_def match_here_def starts_with_def keyword_def py_isspace_def equals_sign_def
  lbracket_def rbracket_def py_strip_def stripped_name_def updated_entry_def new_block_def
  manifest_name_def

lemma extras_span: "pattern_search (manifest_with extras_deps) = Some (10, 44)"
  by (simp add: manifest_with_def extras_deps_def eval_defs)

lemma plain_span: "pattern_search (manifest_with plain_deps) = Some (10, 58)"
  by (simp add: manifest_with_def plain_deps_def eval_defs)

lemma no_block_span: "pattern_search no_block_manifest = None"
  by (simp add: no_block_manifest_def eval_defs)

lemma quoted_key_span: "pattern_search quoted_key_manifest = None"
  by (simp add: quoted_key_manifest_def eval_defs)

lemma extras_names: "dependency_names extras_deps = Inr {lit ''uvicorn'', lit ''fastapi''}"
  by (simp add: dependency_names_stripped extras_deps_def eval_defs)

lemma plain_names: "dependency_names plain_deps = Inr {lit ''requests'', lit ''fastapi''}"
  by (simp add: dependency_names_stripped plain_deps_def eval_defs)

lemma example_manifest_dir:
  "manifest_dir (world_for manifest deps listing) (state_for manifest) = Some [lit ''proj'']"
  by (simp add: manifest_dir_def world_for_def state_for_def parents_def manifest_name_def lit_def
      upt_rec)

lemma example_files:
  "files (state_for manifest) ([lit ''proj''] @ [manifest_name]) = Some manifest"
  "files (state_for manifest) manifest_path = Some manifest"
  by (simp_all add: state_for_def manifest_name_def manifest_path_def)

lemma example_toml: "toml_dependencies (world_for manifest deps listing) manifest = Inr deps"
  by (simp add: world_for_def)

lemma example_outdated: "uv_outdated (world_for manifest deps listing) = listing"
  by (simp add: world_for_def)

lemma extras_entries:
  "map (updated_entry [lit ''fastapi'' \<mapsto> lit ''0.2'']) extras_deps =
    [lit ''uvicorn[standard]>=0.30'', lit ''fastapi==0.2'']"
  by (simp add: extras_deps_def eval_defs)

lemma extras_splice:
  "take 10 (manifest_with extras_deps) @
    new_block [lit ''uvicorn[standard]>=0.30'', lit ''fastapi==0.2''] @
    drop 44 (manifest_with extras_deps) = broken_manifest"
  by (simp add: manifest_with_def extras_deps_def broken_manifest_def eval_defs)

section \<open>The rewrite seen from the disk\<close>






lemma rewrite_on_disk_no_match:
  assumes "pattern_search (universal_newlines raw) = None"
  shows "rewrite_on_disk w linesep p new_versions raw = None"
proof -
  have f: "files \<lparr>files = [p \<mapsto> universal_newlines raw], stdout = []\<rparr> p =
      Some (universal_newlines raw)"
    by simp
  show ?thesis
    unfolding rewrite_on_disk_def
    by (simp add: update_block_no_match [OF f assms])
qed






section \<open>The manifest rewrite\<close>

text \<open>
  C10: the loop returns, without failing, one entry for each parsed declaration, in
  order: the exact pin if the stripped name of the declaration is a key of the update
  map, the declaration itself otherwise. A key that is the stripped name of no parsed
  declaration changes nothing: with or without it, bound to whatever version, the loop
  and the whole rewrite give the same result.
\<close>

theorem rewrite_keeps_one_entry_per_declaration:
  "(\<exists>updated_deps.
      update_loop new_versions deps [] = Inr updated_deps \<and>
      length updated_deps = length deps \<and>
      (\<forall>i<length deps.
         updated_deps ! i =
           (case new_versions (stripped_name (deps ! i)) of
              Some v \<Rightarrow> stripped_name (deps ! i) @ lit ''=='' @ v
            | None \<Rightarrow> deps ! i))) \<and>
   (k \<notin> stripped_name ` set deps \<longrightarrow>
      update_loop (new_versions(k := x)) deps [] = update_loop new_versions deps []) \<and>
   (k \<notin> stripped_name ` set deps \<and> files st pyproject_path = Some text \<and>
    toml_dependencies w text = Inr deps \<longrightarrow>
      update_pyproject_dependencies_block w st pyproject_path (new_versions(k := x)) =
      update_pyproject_dependencies_block w st pyproject_path new_versions)"
proof (intro conjI impI)
  show "\<exists>updated_deps.
      update_loop new_versions deps [] = Inr updated_deps \<and>
      length updated_deps = length deps \<and>
      (\<forall>i<length deps.
         updated_deps ! i =
           (case new_versions (stripped_name (deps ! i)) of
              Some v \<Rightarrow> stripped_name (deps ! i) @ lit ''=='' @ v
            | None \<Rightarrow> deps ! i))"
    by (simp add: update_loop_eq updated_entry_def)
next
  assume "k \<notin> stripped_name ` set deps"
  then show "update_loop (new_versions(k := x)) deps [] = update_loop new_versions deps []"
    by (simp add: update_loop_eq map_updated_entry_foreign_key)
next
  assume a: "k \<notin> stripped_name ` set deps \<and> files st pyproject_path = Some text \<and>
    toml_dependencies w text = Inr deps"
  then have "update_loop (new_versions(k := x)) deps [] = update_loop new_versions deps []"
    by (simp add: update_loop_eq map_updated_entry_foreign_key)
  with a show "update_pyproject_dependencies_block w st pyproject_path (new_versions(k := x)) =
      update_pyproject_dependencies_block w st pyproject_path new_versions"
    by (simp add: update_pyproject_dependencies_block_def split: option.splits)
qed

theorem rewrite_keeps_one_entry_per_declaration_witness:
  "(\<exists>updated_deps.
      update_loop [lit ''fastapi'' \<mapsto> lit ''0.2''] plain_deps [] = Inr updated_deps \<and>
      length updated_deps = length plain_deps) \<and>
   update_loop ([lit ''fastapi'' \<mapsto> lit ''0.2''](lit ''numpy'' \<mapsto> lit ''2.0'')) plain_deps [] =
     update_loop [lit ''fastapi'' \<mapsto> lit ''0.2''] plain_deps [] \<and>
   update_pyproject_dependencies_block
     (world_for (manifest_with plain_deps) plain_deps (Inr fastapi_outdated))
     (state_for (manifest_with plain_deps)) manifest_path
     ([lit ''fastapi'' \<mapsto> lit ''0.2''](lit ''numpy'' \<mapsto> lit ''2.0'')) =
   update_pyproject_dependencies_block
     (world_for (manifest_with plain_deps) plain_deps (Inr fastapi_outdated))
     (state_for (manifest_with plain_deps)) manifest_path [lit ''fastapi'' \<mapsto> lit ''0.2'']"
proof -
  let ?w = "world_for (manifest_with plain_deps) plain_deps (Inr fastapi_outdated)"
  let ?st = "state_for (manifest_with plain_deps)"
  have h1: "lit ''numpy'' \<notin> stripped_name ` set plain_deps"
    by (simp add: plain_deps_def eval_defs)
  have h2: "lit ''numpy'' \<notin> stripped_name ` set plain_deps \<and>
      files ?st manifest_path = Some (manifest_with plain_deps) \<and>
      toml_dependencies ?w (manifest_with plain_deps) = Inr plain_deps"
    using h1 example_files(2) example_toml by (intro conjI)
  note T = rewrite_keeps_one_entry_per_declaration
    [of "[lit ''fastapi'' \<mapsto> lit ''0.2'']" plain_deps "lit ''numpy''" "Some (lit ''2.0'')"
        ?st manifest_path "manifest_with plain_deps" ?w]
  have c1: "\<exists>updated_deps.
      update_loop [lit ''fastapi'' \<mapsto> lit ''0.2''] plain_deps [] = Inr updated_deps \<and>
      length updated_deps = length plain_deps"
    using T [THEN conjunct1] by blast
  have c2: "update_loop ([lit ''fastapi'' \<mapsto> lit ''0.2''](lit ''numpy'' \<mapsto> lit ''2.0'')) plain_deps [] =
     update_loop [lit ''fastapi'' \<mapsto> lit ''0.2''] plain_deps []"
    by (rule mp [OF T [THEN conjunct2, THEN conjunct1] h1])
  have c3: "update_pyproject_dependencies_block ?w ?st manifest_path
     ([lit ''fastapi'' \<mapsto> lit ''0.2''](lit ''numpy'' \<mapsto> lit ''2.0'')) =
   update_pyproject_dependencies_block ?w ?st manifest_path [lit ''fastapi'' \<mapsto> lit ''0.2'']"
    by (rule mp [OF T [THEN conjunct2, THEN conjunct2] h2])
  from c1 c2 c3 show ?thesis by (intro conjI)
qed




text \<open>
  C1 fails on a manifest the program is written for: with the declarations
  \<^verbatim>\<open>"uvicorn[standard]>=0.30"\<close> and \<^verbatim>\<open>"fastapi==0.1"\<close> and the update \<^verbatim>\<open>fastapi -> 0.2\<close>,
  the lazy pattern ends its match at the \<^verbatim>\<open>]\<close> of \<^verbatim>\<open>[standard]\<close>, so the rebuilt block
  replaces only the text up to there and the rest of the old array stays behind it:
  the file written is \<open>broken_manifest\<close>, in which \<^verbatim>\<open>>=0.30", "fastapi==0.1"]\<close> follows
  the closing bracket of the new array.
\<close>

theorem rewrite_breaks_manifest_with_extras:
  "dependency_names extras_deps = Inr {lit ''uvicorn'', lit ''fastapi''} \<and>
   pattern_search (manifest_with extras_deps) = Some (10, 44) \<and>
   update_pyproject_dependencies_block
     (world_for (manifest_with extras_deps) extras_deps (Inr fastapi_outdated))
     (state_for (manifest_with extras_deps)) manifest_path [lit ''fastapi'' \<mapsto> lit ''0.2''] =
     (Return (),
      (state_for (manifest_with extras_deps))
        \<lparr>files := (files (state_for (manifest_with extras_deps)))
           (manifest_path \<mapsto> broken_manifest)\<rparr>) \<and>
   fst (main (world_for (manifest_with extras_deps) extras_deps (Inr fastapi_outdated))
          (state_for (manifest_with extras_deps))) = Return () \<and>
   files (snd (main (world_for (manifest_with extras_deps) extras_deps (Inr fastapi_outdated))
          (state_for (manifest_with extras_deps)))) manifest_path = Some broken_manifest"
proof (intro conjI)
  let ?w = "world_for (manifest_with extras_deps) extras_deps (Inr fastapi_outdated)"
  let ?st = "state_for (manifest_with extras_deps)"
  show "dependency_names extras_deps = Inr {lit ''uvicorn'', lit ''fastapi''}"
    by (rule extras_names)
  show "pattern_search (manifest_with extras_deps) = Some (10, 44)"
    by (rule extras_span)
  show "update_pyproject_dependencies_block ?w ?st manifest_path [lit ''fastapi'' \<mapsto> lit ''0.2''] =
     (Return (), ?st\<lparr>files := (files ?st)(manifest_path \<mapsto> broken_manifest)\<rparr>)"
    using update_block_match [OF example_files(2) extras_span example_toml,
        of extras_deps "Inr fastapi_outdated" "[lit ''fastapi'' \<mapsto> lit ''0.2'']"]
    by (simp only: extras_entries extras_splice)
  have ne: "{lit ''uvicorn'', lit ''fastapi''} \<noteq> ({} :: pystr set)" by simp
  have fl: "filter (\<lambda>p. pkg_name p \<in> {lit ''uvicorn'', lit ''fastapi''}) fastapi_outdated =
      fastapi_outdated"
    by (simp add: fastapi_outdated_def)
  have fne: "filter (\<lambda>p. pkg_name p \<in> {lit ''uvicorn'', lit ''fastapi''}) fastapi_outdated \<noteq> []"
    by (simp add: fastapi_outdated_def)
  have nv: "foldl (\<lambda>m p. m(pkg_name p \<mapsto> pkg_latest_version p)) Map.empty fastapi_outdated =
      [lit ''fastapi'' \<mapsto> lit ''0.2'']"
    by (simp add: fastapi_outdated_def)
  note R = main_rewrite_done [OF example_manifest_dir example_files(1) example_toml extras_names ne
      example_outdated fne extras_span]
  show "fst (main ?w ?st) = Return ()" by (rule R(1))
  have "files (snd (main ?w ?st)) = (files ?st)([lit ''proj''] @ [manifest_name] \<mapsto> broken_manifest)"
    using R(2) by (simp only: fl nv extras_entries extras_splice)
  then show "files (snd (main ?w ?st)) manifest_path = Some broken_manifest"
    by (simp add: manifest_path_def manifest_name_def)
qed

section \<open>Exit codes of the command\<close>

lemma names_of: "dependency_names deps = Inr names \<Longrightarrow> names = stripped_name ` set deps - {[]}"
  by (simp add: dependency_names_stripped)

lemma empty_names: "dependency_names [] = Inr {}"
  by (simp add: dependency_names_def)

lemma quoted_key_names: "dependency_names quoted_key_deps = Inr {lit ''fastapi''}"
  by (simp add: dependency_names_stripped quoted_key_deps_def eval_defs)

lemma empty_manifest_dir: "manifest_dir (world_for manifest deps listing) empty_state = None"
  by (simp add: manifest_dir_def world_for_def empty_state_def parents_def upt_rec)

text \<open>
  C2, as the specification states it, fails in both directions. A manifest that is found and
  has no dependencies block (and so declares nothing) makes the run print that there are
  no direct dependencies and end with exit code 0: the pattern is only searched once
  there is something to update. And a run whose manifest is found and has the block ends
  with exit code 1 when the external command fails, the exception of
  \<^verbatim>\<open>subprocess.run(..., check=True)\<close> being caught nowhere.
\<close>

theorem exit_zero_without_dependencies_block:
  "manifest_dir (world_for no_block_manifest [] (Inr [])) (state_for no_block_manifest) =
     Some [lit ''proj''] \<and>
   pattern_search no_block_manifest = None \<and>
   exit_code (fst (main (world_for no_block_manifest [] (Inr [])) (state_for no_block_manifest))) = 0 \<and>
   pattern_search (manifest_with plain_deps) = Some (10, 58) \<and>
   exit_code (fst (main (world_for (manifest_with plain_deps) plain_deps (Inl LibraryError))
     (state_for (manifest_with plain_deps)))) = 1"
proof (intro conjI)
  show "manifest_dir (world_for no_block_manifest [] (Inr [])) (state_for no_block_manifest) =
     Some [lit ''proj'']"
    by (rule example_manifest_dir)
  show "pattern_search no_block_manifest = None" by (rule no_block_span)
  show "exit_code (fst (main (world_for no_block_manifest [] (Inr [])) (state_for no_block_manifest))) = 0"
    by (simp add: main_no_direct_deps [OF example_manifest_dir example_files(1) example_toml empty_names])
  show "pattern_search (manifest_with plain_deps) = Some (10, 58)" by (rule plain_span)
  have ne: "{lit ''requests'', lit ''fastapi''} \<noteq> ({} :: pystr set)" by simp
  show "exit_code (fst (main (world_for (manifest_with plain_deps) plain_deps (Inl LibraryError))
     (state_for (manifest_with plain_deps)))) = 1"
    by (simp add: main_listing_error(1) [OF example_manifest_dir example_files(1) example_toml
          plain_names ne example_outdated])
qed

text \<open>
  C2, amended: the command raises \<^verbatim>\<open>SystemExit(1)\<close>, its message printed last, when no
  \<^verbatim>\<open>pyproject.toml\<close> is found walking upward from the working directory, and when the
  rewrite is reached (the manifest loads, the listing is obtained and names a direct
  dependency) and the dependencies-block pattern does not match the manifest text; it
  raises \<^verbatim>\<open>SystemExit\<close> in no other case. Whenever the manifest loads and the listing, if
  asked for, is obtained, every other run returns normally, exit code 0; that includes a
  manifest without the block that has nothing to update. When loading the manifest or
  the external command raises, the run ends with that exception uncaught, exit code 1.
\<close>

theorem main_exit_status:
  "(manifest_dir w st = None \<longrightarrow>
      fst (main w st) = SystemExit 1 \<and> exit_code (fst (main w st)) = 1 \<and>
      last (stdout (snd (main w st))) =
        lit ''No pyproject.toml found upwards from current working directory.'') \<and>
   (manifest_dir w st = Some root \<and> files st (root @ [manifest_name]) = Some text \<and>
    toml_dependencies w text = Inr deps \<and> dependency_names deps = Inr names \<and>
    (names = {} \<or> uv_outdated w = Inr outdated) \<longrightarrow>
      (if names \<noteq> {} \<and> list_ex (\<lambda>p. pkg_name p \<in> names) outdated \<and>
          pattern_search text = None
       then fst (main w st) = SystemExit 1 \<and> exit_code (fst (main w st)) = 1 \<and>
            last (stdout (snd (main w st))) =
              lit ''Kein [project].dependencies Block in pyproject.toml gefunden.''
       else fst (main w st) = Return () \<and> exit_code (fst (main w st)) = 0)) \<and>
   (fst (main w st) = SystemExit n \<longrightarrow>
      n = 1 \<and>
      (manifest_dir w st = None \<or>
       (\<exists>root text. manifest_dir w st = Some root \<and>
          files st (root @ [manifest_name]) = Some text \<and> pattern_search text = None))) \<and>
   (manifest_dir w st = Some root \<and> files st (root @ [manifest_name]) = Some text \<and>
    (toml_dependencies w text = Inl err \<or>
     (toml_dependencies w text = Inr deps \<and> dependency_names deps = Inr names \<and>
      names \<noteq> {} \<and> uv_outdated w = Inl err)) \<longrightarrow>
      fst (main w st) = Raised err \<and> exit_code (fst (main w st)) = 1)"
proof -
  have c1: "manifest_dir w st = None \<longrightarrow>
      fst (main w st) = SystemExit 1 \<and> exit_code (fst (main w st)) = 1 \<and>
      last (stdout (snd (main w st))) =
        lit ''No pyproject.toml found upwards from current working directory.''"
  proof (rule impI)
    assume "manifest_dir w st = None"
    from main_no_manifest [OF this]
    show "fst (main w st) = SystemExit 1 \<and> exit_code (fst (main w st)) = 1 \<and>
        last (stdout (snd (main w st))) =
          lit ''No pyproject.toml found upwards from current working directory.''"
      by simp
  qed
  have c2: "manifest_dir w st = Some root \<and> files st (root @ [manifest_name]) = Some text \<and>
    toml_dependencies w text = Inr deps \<and> dependency_names deps = Inr names \<and>
    (names = {} \<or> uv_outdated w = Inr outdated) \<longrightarrow>
      (if names \<noteq> {} \<and> list_ex (\<lambda>p. pkg_name p \<in> names) outdated \<and>
          pattern_search text = None
       then fst (main w st) = SystemExit 1 \<and> exit_code (fst (main w st)) = 1 \<and>
            last (stdout (snd (main w st))) =
              lit ''Kein [project].dependencies Block in pyproject.toml gefunden.''
       else fst (main w st) = Return () \<and> exit_code (fst (main w st)) = 0)"
  proof (rule impI)
    assume a: "manifest_dir w st = Some root \<and> files st (root @ [manifest_name]) = Some text \<and>
      toml_dependencies w text = Inr deps \<and> dependency_names deps = Inr names \<and>
      (names = {} \<or> uv_outdated w = Inr outdated)"
    then have md: "manifest_dir w st = Some root" and f: "files st (root @ [manifest_name]) = Some text"
      and t: "toml_dependencies w text = Inr deps" and dn: "dependency_names deps = Inr names"
      by blast+
    show "if names \<noteq> {} \<and> list_ex (\<lambda>p. pkg_name p \<in> names) outdated \<and>
            pattern_search text = None
         then fst (main w st) = SystemExit 1 \<and> exit_code (fst (main w st)) = 1 \<and>
              last (stdout (snd (main w st))) =
                lit ''Kein [project].dependencies Block in pyproject.toml gefunden.''
         else fst (main w st) = Return () \<and> exit_code (fst (main w st)) = 0"
    proof (cases "names = {}")
      case True
      with dn have "dependency_names deps = Inr {}" by simp
      from main_no_direct_deps [OF md f t this] True show ?thesis by simp
    next
      case ne: False
      with a have uv: "uv_outdated w = Inr outdated" by blast
      show ?thesis
      proof (cases "filter (\<lambda>p. pkg_name p \<in> names) outdated = []")
        case True
        then have "\<not> list_ex (\<lambda>p. pkg_name p \<in> names) outdated"
          by (simp add: filter_empty_conv list_ex_iff)
        with main_nothing_outdated [OF md f t dn ne uv True] show ?thesis by simp
      next
        case fne: False
        then have ex: "list_ex (\<lambda>p. pkg_name p \<in> names) outdated"
          by (simp add: filter_empty_conv list_ex_iff)
        show ?thesis
        proof (cases "pattern_search text")
          case None
          from main_rewrite_no_block [OF md f t dn ne uv fne None] ne ex None
          show ?thesis by simp
        next
          case (Some se)
          then obtain s e where "pattern_search text = Some (s, e)" by (cases se) simp
          from main_rewrite_done(1) [OF md f t dn ne uv fne this] Some
          show ?thesis by simp
        qed
      qed
    qed
  qed
  have c3: "fst (main w st) = SystemExit n \<longrightarrow>
      n = 1 \<and>
      (manifest_dir w st = None \<or>
       (\<exists>root text. manifest_dir w st = Some root \<and>
          files st (root @ [manifest_name]) = Some text \<and> pattern_search text = None))"
  proof (rule impI)
    assume se: "fst (main w st) = SystemExit n"
    show "n = 1 \<and>
        (manifest_dir w st = None \<or>
         (\<exists>root text. manifest_dir w st = Some root \<and>
            files st (root @ [manifest_name]) = Some text \<and> pattern_search text = None))"
    proof (cases "manifest_dir w st")
      case None
      from main_no_manifest [OF None] se None show ?thesis by simp
    next
      case (Some root)
      from manifest_dir_SomeD [OF Some] obtain manifest where
        f: "files st (root @ [manifest_name]) = Some manifest" by blast
      show ?thesis
      proof (cases "toml_dependencies w manifest")
        case (Inl err)
        from main_load_error [OF Some f Inl] se show ?thesis by simp
      next
        case (Inr deps)
        define names where "names = stripped_name ` set deps - {[]}"
        have dn: "dependency_names deps = Inr names"
          by (simp add: dependency_names_stripped names_def)
        show ?thesis
        proof (cases "names = {}")
          case True
          with dn have "dependency_names deps = Inr {}" by simp
          from main_no_direct_deps [OF Some f Inr this] se show ?thesis by simp
        next
          case ne: False
          show ?thesis
          proof (cases "uv_outdated w")
            case (Inl err)
            from main_listing_error(1) [OF Some f Inr dn ne Inl] se show ?thesis by simp
          next
            case uv: (Inr outdated)
            show ?thesis
            proof (cases "filter (\<lambda>p. pkg_name p \<in> names) outdated = []")
              case True
              from main_nothing_outdated [OF Some f Inr dn ne uv True] se show ?thesis by simp
            next
              case fne: False
              show ?thesis
              proof (cases "pattern_search manifest")
                case None
                from main_rewrite_no_block(1) [OF Some f Inr dn ne uv fne None] se
                have "n = 1" by simp
                with Some f None show ?thesis by blast
              next
                case (Some se')
                then obtain s e where "pattern_search manifest = Some (s, e)" by (cases se') simp
                from main_rewrite_done(1) [OF \<open>manifest_dir w st = Some root\<close> f Inr dn ne uv fne this] se
                show ?thesis by simp
              qed
            qed
          qed
        qed
      qed
    qed
  qed
  have c4: "manifest_dir w st = Some root \<and> files st (root @ [manifest_name]) = Some text \<and>
    (toml_dependencies w text = Inl err \<or>
     (toml_dependencies w text = Inr deps \<and> dependency_names deps = Inr names \<and>
      names \<noteq> {} \<and> uv_outdated w = Inl err)) \<longrightarrow>
      fst (main w st) = Raised err \<and> exit_code (fst (main w st)) = 1"
  proof (rule impI)
    assume a: "manifest_dir w st = Some root \<and> files st (root @ [manifest_name]) = Some text \<and>
      (toml_dependencies w text = Inl err \<or>
       (toml_dependencies w text = Inr deps \<and> dependency_names deps = Inr names \<and>
        names \<noteq> {} \<and> uv_outdated w = Inl err))"
    then have md: "manifest_dir w st = Some root" and f: "files st (root @ [manifest_name]) = Some text"
      by blast+
    from a consider (load) "toml_dependencies w text = Inl err"
      | (listing) "toml_dependencies w text = Inr deps" "dependency_names deps = Inr names"
          "names \<noteq> {}" "uv_outdated w = Inl err"
      by blast
    then show "fst (main w st) = Raised err \<and> exit_code (fst (main w st)) = 1"
    proof cases
      case load
      from main_load_error [OF md f load] show ?thesis by simp
    next
      case listing
      from main_listing_error(1) [OF md f listing] show ?thesis by simp
    qed
  qed
  from c1 c2 c3 c4 show ?thesis by (intro conjI)
qed

theorem main_exit_status_witness:
  "fst (main (world_for no_block_manifest [] (Inr [])) empty_state) = SystemExit 1 \<and>
   fst (main (world_for quoted_key_manifest quoted_key_deps (Inr fastapi_outdated))
     (state_for quoted_key_manifest)) = SystemExit 1 \<and>
   last (stdout (snd (main (world_for quoted_key_manifest quoted_key_deps (Inr fastapi_outdated))
     (state_for quoted_key_manifest)))) =
     lit ''Kein [project].dependencies Block in pyproject.toml gefunden.'' \<and>
   exit_code (fst (main (world_for (manifest_with plain_deps) plain_deps (Inr fastapi_outdated))
     (state_for (manifest_with plain_deps)))) = 0 \<and>
   exit_code (fst (main (world_for no_block_manifest [] (Inr [])) (state_for no_block_manifest))) = 0 \<and>
   fst (main (world_for (manifest_with plain_deps) plain_deps (Inl LibraryError))
     (state_for (manifest_with plain_deps))) = Raised LibraryError"
proof -
  let ?w0 = "world_for no_block_manifest [] (Inr [])"
  let ?wq = "world_for quoted_key_manifest quoted_key_deps (Inr fastapi_outdated)"
  let ?sq = "state_for quoted_key_manifest"
  let ?wp = "world_for (manifest_with plain_deps) plain_deps (Inr fastapi_outdated)"
  let ?sp = "state_for (manifest_with plain_deps)"
  let ?we = "world_for (manifest_with plain_deps) plain_deps (Inl LibraryError)"
  have a: "fst (main ?w0 empty_state) = SystemExit 1"
    using mp [OF main_exit_status [of ?w0 empty_state, THEN conjunct1] empty_manifest_dir]
    by blast
  have hq: "manifest_dir ?wq ?sq = Some [lit ''proj''] \<and>
      files ?sq ([lit ''proj''] @ [manifest_name]) = Some quoted_key_manifest \<and>
      toml_dependencies ?wq quoted_key_manifest = Inr quoted_key_deps \<and>
      dependency_names quoted_key_deps = Inr {lit ''fastapi''} \<and>
      ({lit ''fastapi''} = ({} :: pystr set) \<or> uv_outdated ?wq = Inr fastapi_outdated)"
    using example_manifest_dir example_files(1) example_toml quoted_key_names example_outdated
    by (intro conjI disjI2)
  have cq: "{lit ''fastapi''} \<noteq> ({} :: pystr set) \<and>
      list_ex (\<lambda>p. pkg_name p \<in> {lit ''fastapi''}) fastapi_outdated \<and>
      pattern_search quoted_key_manifest = None"
    using quoted_key_span by (simp add: fastapi_outdated_def)
  have b: "fst (main ?wq ?sq) = SystemExit 1 \<and>
      last (stdout (snd (main ?wq ?sq))) =
        lit ''Kein [project].dependencies Block in pyproject.toml gefunden.''"
    using mp [OF main_exit_status [THEN conjunct2, THEN conjunct1] hq] cq
    by (simp only: if_True simp_thms)
  have se: "(1 :: int) = 1 \<and>
      (manifest_dir ?wq ?sq = None \<or>
       (\<exists>root text. manifest_dir ?wq ?sq = Some root \<and>
          files ?sq (root @ [manifest_name]) = Some text \<and> pattern_search text = None))"
    using b by (intro mp [OF main_exit_status [THEN conjunct2, THEN conjunct2, THEN conjunct1]]) blast
  have hp: "manifest_dir ?wp ?sp = Some [lit ''proj''] \<and>
      files ?sp ([lit ''proj''] @ [manifest_name]) = Some (manifest_with plain_deps) \<and>
      toml_dependencies ?wp (manifest_with plain_deps) = Inr plain_deps \<and>
      dependency_names plain_deps = Inr {lit ''requests'', lit ''fastapi''} \<and>
      ({lit ''requests'', lit ''fastapi''} = ({} :: pystr set) \<or>
       uv_outdated ?wp = Inr fastapi_outdated)"
    using example_manifest_dir example_files(1) example_toml plain_names example_outdated
    by (intro conjI disjI2)
  have c: "exit_code (fst (main ?wp ?sp)) = 0"
    using mp [OF main_exit_status [THEN conjunct2, THEN conjunct1] hp] plain_span
    by (simp split: if_splits)
  have h0: "manifest_dir ?w0 (state_for no_block_manifest) = Some [lit ''proj''] \<and>
      files (state_for no_block_manifest) ([lit ''proj''] @ [manifest_name]) = Some no_block_manifest \<and>
      toml_dependencies ?w0 no_block_manifest = Inr [] \<and>
      dependency_names [] = Inr {} \<and>
      (({} :: pystr set) = {} \<or> uv_outdated ?w0 = Inr [])"
    using example_manifest_dir example_files(1) example_toml empty_names
    by (intro conjI disjI1 refl)
  have d: "exit_code (fst (main ?w0 (state_for no_block_manifest))) = 0"
    using mp [OF main_exit_status [THEN conjunct2, THEN conjunct1] h0]
    by (simp split: if_splits)
  have he: "manifest_dir ?we ?sp = Some [lit ''proj''] \<and>
      files ?sp ([lit ''proj''] @ [manifest_name]) = Some (manifest_with plain_deps) \<and>
      (toml_dependencies ?we (manifest_with plain_deps) = Inl LibraryError \<or>
       (toml_dependencies ?we (manifest_with plain_deps) = Inr plain_deps \<and>
        dependency_names plain_deps = Inr {lit ''requests'', lit ''fastapi''} \<and>
        {lit ''requests'', lit ''fastapi''} \<noteq> ({} :: pystr set) \<and>
        uv_outdated ?we = Inl LibraryError))"
    using example_manifest_dir example_files(1) example_toml plain_names example_outdated
    by (intro conjI disjI2) simp_all
  have e: "fst (main ?we ?sp) = Raised LibraryError"
    using mp [OF main_exit_status [THEN conjunct2, THEN conjunct2, THEN conjunct2] he]
    by blast
  from a b c d e show ?thesis by (intro conjI) blast+
qed

text \<open>
  C5: if the manifest is found and loads, and it declares no direct dependency, or the
  outdated listing is obtained and names none of the direct dependencies, then the
  command returns normally (exit code 0), the last line it printed is the informational
  message of that case, and no file has changed. (Whether the text has a dependencies
  block plays no part.)
\<close>

theorem nothing_to_update_exits_normally:
  "manifest_dir w st = Some root \<and> files st (root @ [manifest_name]) = Some text \<and>
   toml_dependencies w text = Inr deps \<and> dependency_names deps = Inr names \<and>
   (deps = [] \<or> names = {} \<or>
    (uv_outdated w = Inr outdated \<and> list_all (\<lambda>p. pkg_name p \<notin> names) outdated)) \<longrightarrow>
     fst (main w st) = Return () \<and> exit_code (fst (main w st)) = 0 \<and>
     files (snd (main w st)) = files st \<and>
     length (stdout st) < length (stdout (snd (main w st))) \<and>
     last (stdout (snd (main w st))) =
       (if names = {} then lit ''Keine direkten Dependencies in pyproject.toml gefunden.''
        else lit ''Keine veralteten direkten Dependencies gefunden.'')"
proof (intro impI)
  assume a: "manifest_dir w st = Some root \<and> files st (root @ [manifest_name]) = Some text \<and>
   toml_dependencies w text = Inr deps \<and> dependency_names deps = Inr names \<and>
   (deps = [] \<or> names = {} \<or>
    (uv_outdated w = Inr outdated \<and> list_all (\<lambda>p. pkg_name p \<notin> names) outdated))"
  then have md: "manifest_dir w st = Some root" and f: "files st (root @ [manifest_name]) = Some text"
    and t: "toml_dependencies w text = Inr deps" and dn: "dependency_names deps = Inr names"
    by blast+
  let ?concl = "fst (main w st) = Return () \<and> exit_code (fst (main w st)) = 0 \<and>
     files (snd (main w st)) = files st \<and>
     length (stdout st) < length (stdout (snd (main w st))) \<and>
     last (stdout (snd (main w st))) =
       (if names = {} then lit ''Keine direkten Dependencies in pyproject.toml gefunden.''
        else lit ''Keine veralteten direkten Dependencies gefunden.'')"
  show ?concl
  proof (cases "names = {}")
    case True
    with dn have "dependency_names deps = Inr {}" by simp
    from main_no_direct_deps [OF md f t this] True show ?thesis by simp
  next
    case False
    have "deps \<noteq> []"
    proof
      assume "deps = []"
      with names_of [OF dn] False show False by simp
    qed
    with a False have uv: "uv_outdated w = Inr outdated"
      and none: "list_all (\<lambda>p. pkg_name p \<notin> names) outdated"
      by blast+
    from none have fl: "filter (\<lambda>p. pkg_name p \<in> names) outdated = []"
      by (simp add: filter_empty_conv list_all_iff)
    from main_nothing_outdated [OF md f t dn False uv fl] False show ?thesis by simp
  qed
qed

theorem nothing_to_update_exits_normally_witness:
  "fst (main (world_for (manifest_with []) [] (Inr fastapi_outdated)) (state_for (manifest_with []))) =
     Return () \<and>
   files (snd (main (world_for (manifest_with []) [] (Inr fastapi_outdated))
     (state_for (manifest_with [])))) = files (state_for (manifest_with [])) \<and>
   fst (main (world_for (manifest_with plain_deps) plain_deps (Inr numpy_outdated))
     (state_for (manifest_with plain_deps))) = Return () \<and>
   files (snd (main (world_for (manifest_with plain_deps) plain_deps (Inr numpy_outdated))
     (state_for (manifest_with plain_deps)))) = files (state_for (manifest_with plain_deps)) \<and>
   last (stdout (snd (main (world_for (manifest_with plain_deps) plain_deps (Inr numpy_outdated))
     (state_for (manifest_with plain_deps))))) =
     lit ''Keine veralteten direkten Dependencies gefunden.''"
proof -
  let ?w1 = "world_for (manifest_with []) [] (Inr fastapi_outdated)"
  let ?s1 = "state_for (manifest_with [])"
  let ?w2 = "world_for (manifest_with plain_deps) plain_deps (Inr numpy_outdated)"
  let ?s2 = "state_for (manifest_with plain_deps)"
  have h1: "manifest_dir ?w1 ?s1 = Some [lit ''proj''] \<and>
      files ?s1 ([lit ''proj''] @ [manifest_name]) = Some (manifest_with []) \<and>
      toml_dependencies ?w1 (manifest_with []) = Inr [] \<and> dependency_names [] = Inr {} \<and>
      ([] = ([] :: pystr list) \<or> ({} :: pystr set) = {} \<or>
       (uv_outdated ?w1 = Inr fastapi_outdated \<and>
        list_all (\<lambda>p. pkg_name p \<notin> {}) fastapi_outdated))"
    using example_manifest_dir example_files(1) example_toml empty_names by (intro conjI disjI1 refl)
  have ne: "{lit ''requests'', lit ''fastapi''} \<noteq> ({} :: pystr set)" by simp
  have la: "list_all (\<lambda>p. pkg_name p \<notin> {lit ''requests'', lit ''fastapi''}) numpy_outdated"
    by (simp add: numpy_outdated_def lit_def)
  have h2: "manifest_dir ?w2 ?s2 = Some [lit ''proj''] \<and>
      files ?s2 ([lit ''proj''] @ [manifest_name]) = Some (manifest_with plain_deps) \<and>
      toml_dependencies ?w2 (manifest_with plain_deps) = Inr plain_deps \<and>
      dependency_names plain_deps = Inr {lit ''requests'', lit ''fastapi''} \<and>
      (plain_deps = [] \<or> {lit ''requests'', lit ''fastapi''} = ({} :: pystr set) \<or>
       (uv_outdated ?w2 = Inr numpy_outdated \<and>
        list_all (\<lambda>p. pkg_name p \<notin> {lit ''requests'', lit ''fastapi''}) numpy_outdated))"
    using example_manifest_dir example_files(1) example_toml plain_names example_outdated la
    by (intro conjI disjI2)
  note R1 = mp [OF nothing_to_update_exits_normally h1]
  note R2 = mp [OF nothing_to_update_exits_normally h2]
  from R1 R2 ne show ?thesis by simp
qed

end
